theory Spec2Isabelle
  imports Main "HOL-Library.Sublist"
begin

section \<open>JavaScript values\<close>

text \<open>
  Project payloads are typed \<^verbatim>\<open>any\<close> in \<^verbatim>\<open>src/commands/projects.ts\<close>, so they are
  modelled as untyped JSON-like values. An object is an association list in insertion
  order; a key that is missing reads as \<open>JUndefined\<close>. Numbers only arise from
  \<^verbatim>\<open>parseInt\<close>, so a number is an integer or \<open>JNaN\<close>.
\<close>

datatype jv =
    JUndefined
  | JNull
  | JBool bool
  | JNaN
  | JNum int
  | JStr string
  | JArr "jv list"
  | JObj "(string \<times> jv) list"

type_synonym obj = "(string \<times> jv) list"

text \<open>Truthiness, as used by \<^verbatim>\<open>!x\<close>, \<^verbatim>\<open>x || y\<close> and \<^verbatim>\<open>x && y\<close>.\<close>

fun js_truthy :: "jv \<Rightarrow> bool" where
  "js_truthy JUndefined = False"
| "js_truthy JNull = False"
| "js_truthy (JBool b) = b"
| "js_truthy JNaN = False"
| "js_truthy (JNum n) = (n \<noteq> 0)"
| "js_truthy (JStr s) = (s \<noteq> [])"
| "js_truthy (JArr xs) = True"
| "js_truthy (JObj fs) = True"

text \<open>An optional string option of commander: \<open>None\<close> is \<^verbatim>\<open>undefined\<close>.\<close>

definition truthy_str :: "string option \<Rightarrow> bool" where
  "truthy_str so = (case so of None \<Rightarrow> False | Some s \<Rightarrow> s \<noteq> [])"

definition opt_jv :: "string option \<Rightarrow> jv" where
  "opt_jv so = (case so of None \<Rightarrow> JUndefined | Some s \<Rightarrow> JStr s)"

definition num_jv :: "int option \<Rightarrow> jv" where
  "num_jv no = (case no of None \<Rightarrow> JNaN | Some n \<Rightarrow> JNum n)"

text \<open>A string option inside a template literal: \<^verbatim>\<open>`${x}`\<close>.\<close>

definition tmpl_opt :: "string option \<Rightarrow> string" where
  "tmpl_opt so = (case so of None \<Rightarrow> ''undefined'' | Some s \<Rightarrow> s)"

text \<open>
  Property read \<^verbatim>\<open>v.k\<close> on a value that is neither null nor undefined, for the keys
  the program reads (\<^verbatim>\<open>teams\<close>, \<^verbatim>\<open>members\<close>, \<^verbatim>\<open>nodes\<close>, ...; never \<^verbatim>\<open>length\<close> or an
  index): only an object can own such a property.
\<close>

definition get_prop :: "jv \<Rightarrow> string \<Rightarrow> jv" where
  "get_prop v k =
     (case v of
        JObj fs \<Rightarrow> (case map_of fs k of None \<Rightarrow> JUndefined | Some x \<Rightarrow> x)
      | _ \<Rightarrow> JUndefined)"

text \<open>Optional chaining \<^verbatim>\<open>v?.k\<close>.\<close>

definition opt_chain :: "jv \<Rightarrow> string \<Rightarrow> jv" where
  "opt_chain v k = (if v = JNull \<or> v = JUndefined then JUndefined else get_prop v k)"

text \<open>Assignment \<^verbatim>\<open>o[k] = v\<close>: an existing key keeps its place, a new key is appended.\<close>

fun obj_set :: "string \<Rightarrow> jv \<Rightarrow> obj \<Rightarrow> obj" where
  "obj_set k v [] = [(k, v)]"
| "obj_set k v ((k', v') # fs) =
     (if k' = k then (k, v) # fs else (k', v') # obj_set k v fs)"

text \<open>
  The property key of an array index: its decimal digits, as \<^verbatim>\<open>String(i)\<close> gives them.
\<close>

definition decimal_digit :: "nat \<Rightarrow> char" where
  "decimal_digit d = ''0123456789'' ! d"

fun index_key :: "nat \<Rightarrow> string" where
  "index_key i =
     (if 10 \<le> i then index_key (i div 10) @ [decimal_digit (i mod 10)]
      else [decimal_digit i])"

declare index_key.simps [simp del]

text \<open>
  The own enumerable properties copied by an object spread \<^verbatim>\<open>{...v}\<close>: the fields of
  an object, the indexed elements of an array or string, nothing for other values.
\<close>

definition spread :: "jv \<Rightarrow> obj" where
  "spread v =
     (case v of
        JObj fs \<Rightarrow> fs
      | JArr xs \<Rightarrow> map (\<lambda>i. (index_key i, xs ! i)) [0..<length xs]
      | JStr s \<Rightarrow> map (\<lambda>i. (index_key i, JStr [s ! i])) [0..<length s]
      | _ \<Rightarrow> [])"

section \<open>parseInt\<close>

text \<open>
  \<^verbatim>\<open>parseInt(string, radix)\<close> of ECMAScript. The radix is \<open>None\<close> when the call passes
  none. The result is \<open>None\<close> for NaN. A character is a code unit below 256; of the
  white space and line terminators that \<^verbatim>\<open>parseInt\<close> strips, these are the codes 9 to
  13, 32 and 160 (the no-break space). The integer that the digits denote is rounded to
  the nearest double, ties to even, as the conversion to a Number does. Two things are
  not represented: the sign of zero (\<^verbatim>\<open>-0\<close> is \<open>0\<close>; the program only tests it for
  truth and compares it with 0), and Infinity (digits that denote \<open>2 ^ 1024\<close> or more
  stay the rounded integer).
\<close>

definition isWhiteSpace :: "char \<Rightarrow> bool" where
  "isWhiteSpace c = (of_char c \<in> {9::nat, 10, 11, 12, 13, 32, 160})"

text \<open>
  The number of low bits that a double cannot hold: the least \<open>e\<close> with
  \<open>m div 2 ^ e < 2 ^ 53\<close>, where \<open>2 ^ 53 = 9007199254740992\<close>.
\<close>

function droppedBits :: "int \<Rightarrow> nat" where
  "droppedBits m = (if m < 9007199254740992 then 0 else Suc (droppedBits (m div 2)))"
  by pat_completeness auto
termination
  by (relation "measure nat") auto

declare droppedBits.simps [simp del]

definition roundToDouble :: "int \<Rightarrow> int" where
  "roundToDouble m =
     (let e = droppedBits m;
          q = m div 2 ^ e;
          r = m mod 2 ^ e
      in if e = 0 then m
         else if 2 ^ (e - 1) < r \<or> (r = 2 ^ (e - 1) \<and> odd q) then (q + 1) * 2 ^ e
         else q * 2 ^ e)"

definition digitValue :: "char \<Rightarrow> nat option" where
  "digitValue c =
     (let n = (of_char c :: nat) in
      if 48 \<le> n \<and> n \<le> 57 then Some (n - 48)
      else if 97 \<le> n \<and> n \<le> 122 then Some (n - 87)
      else if 65 \<le> n \<and> n \<le> 90 then Some (n - 55)
      else None)"

definition isDigitIn :: "nat \<Rightarrow> char \<Rightarrow> bool" where
  "isDigitIn R c = (case digitValue c of None \<Rightarrow> False | Some d \<Rightarrow> d < R)"

definition digitsValue :: "nat \<Rightarrow> string \<Rightarrow> int" where
  "digitsValue R ds =
     foldl (\<lambda>a c. a * int R + int (case digitValue c of None \<Rightarrow> 0 | Some d \<Rightarrow> d)) 0 ds"

definition parseInt :: "string \<Rightarrow> nat option \<Rightarrow> int option" where
  "parseInt inputString radix =
     (let S = dropWhile isWhiteSpace inputString;
          sign = (case S of c # _ \<Rightarrow> if c = CHR ''-'' then (-1 :: int) else 1 | [] \<Rightarrow> 1);
          S = (case S of c # r \<Rightarrow> if c = CHR ''-'' \<or> c = CHR ''+'' then r else S | [] \<Rightarrow> S);
          R0 = (case radix of None \<Rightarrow> 0 | Some r \<Rightarrow> r)
      in if R0 \<noteq> 0 \<and> (R0 < 2 \<or> 36 < R0) then None
         else
           let stripPrefix = (R0 = 0 \<or> R0 = 16);
               R1 = (if R0 = 0 then 10 else R0);
               hex = (stripPrefix \<and> (take 2 S = ''0x'' \<or> take 2 S = ''0X''));
               S = (if hex then drop 2 S else S);
               R = (if hex then 16 else R1);
               Z = takeWhile (isDigitIn R) S
           in if Z = [] then None
              else Some (sign * roundToDouble (digitsValue R Z)))"

section \<open>Data of the API\<close>

text \<open>A node of \<^verbatim>\<open>FIND_PROJECT_BY_NAME_QUERY\<close>: \<^verbatim>\<open>id name state\<close>.\<close>

record project_node =
  node_id :: string
  node_name :: string
  node_state :: string

text \<open>The payload of a project mutation: \<^verbatim>\<open>success project { ... }\<close>.\<close>

record project_payload =
  pp_success :: bool
  pp_project :: jv

type_synonym UserRef = "string \<times> string"
type_synonym ProjectRef = "string \<times> string"
type_synonym IssueRef = "string \<times> string \<times> string"

record LinearDocument =
  doc_id :: string
  doc_title :: string
  doc_content :: "string option"
  doc_slugId :: string
  doc_url :: string
  doc_icon :: "string option"
  doc_color :: "string option"
  doc_createdAt :: string
  doc_updatedAt :: string
  doc_creator :: "UserRef option"
  doc_project :: "ProjectRef option"
  doc_trashed :: "bool option"

record DocumentCreateInput =
  dci_title :: string
  dci_content :: "string option"
  dci_projectId :: "string option"
  dci_teamId :: "string option"
  dci_icon :: "string option"
  dci_color :: "string option"

record document_payload =
  dp_success :: bool
  dp_document :: LinearDocument

record LinearAttachment =
  att_id :: string
  att_title :: string
  att_subtitle :: "string option"
  att_url :: string
  att_createdAt :: string
  att_updatedAt :: string
  att_issue :: IssueRef
  att_creator :: "UserRef option"

record AttachmentCreateInput =
  aci_issueId :: string
  aci_url :: string
  aci_title :: string
  aci_subtitle :: "string option"
  aci_commentBody :: "string option"
  aci_iconUrl :: "string option"

record attachment_payload =
  ap_success :: bool
  ap_attachment :: LinearAttachment

text \<open>What \<^verbatim>\<open>new URL(url)\<close> exposes to the program.\<close>

record parsed_url =
  hostname :: string
  pathname :: string

section \<open>Errors, remote calls and their trace\<close>

text \<open>
  A thrown value is an \<^verbatim>\<open>Error\<close> with its message, or some other value, kept as what
  \<^verbatim>\<open>String(value)\<close> gives.
\<close>

datatype thrown = Error string | NonError string

text \<open>
  Every request sent through \<^verbatim>\<open>rawRequest\<close> and every call into the services whose
  code is not part of these sources is recorded with its arguments.
\<close>

datatype call =
    FindProjectByName string
  | ListProjects "int option" bool
  | GetProject obj
  | CreateProject obj
  | UpdateProject obj
  | ArchiveProject string
  | DocumentCreate DocumentCreateInput
  | DocumentUpdate string obj
  | GetDocument string
  | ListDocuments "int option" "string option"
  | DocumentDelete string
  | AttachmentCreate AttachmentCreateInput
  | AttachmentDelete string
  | ListAttachments string
  | ResolveTeamId string
  | ResolveIssueId string
  | ResolveProjectId string
  | ListDocumentsBySlugIds "string list" int

fun is_mutation :: "call \<Rightarrow> bool" where
  "is_mutation (CreateProject _) = True"
| "is_mutation (UpdateProject _) = True"
| "is_mutation (ArchiveProject _) = True"
| "is_mutation (DocumentCreate _) = True"
| "is_mutation (DocumentUpdate _ _) = True"
| "is_mutation (DocumentDelete _) = True"
| "is_mutation (AttachmentCreate _) = True"
| "is_mutation (AttachmentDelete _) = True"
| "is_mutation _ = False"

text \<open>
  The surroundings of a command. The first fields are helpers of the repository whose
  files are not among the sources (\<^verbatim>\<open>utils/uuid.js\<close>, \<^verbatim>\<open>utils/error-messages.js\<close>), the
  platform's URL parser (\<open>None\<close> when the constructor throws), the construction of the
  authenticated services (\<open>Some e\<close> when it throws), the methods of \<^verbatim>\<open>LinearService\<close>
  and \<^verbatim>\<open>listDocumentsBySlugIds\<close>; the \<open>raw\<close> fields are the answers of the remote
  endpoint to each query, \<open>Inl\<close> when \<^verbatim>\<open>rawRequest\<close> throws. In an answer, \<open>None\<close> stands
  for a part that is null or missing.
\<close>

record env =
  isUuid :: "string \<Rightarrow> bool"
  notFoundError :: "string \<Rightarrow> string \<Rightarrow> thrown"
  multipleMatchesError :: "string \<Rightarrow> string \<Rightarrow> string list \<Rightarrow> string \<Rightarrow> thrown"
  parseURL :: "string \<Rightarrow> parsed_url option"
  auth :: "thrown option"
  resolveTeamId :: "string \<Rightarrow> thrown + string"
  resolveIssueId :: "string \<Rightarrow> thrown + string"
  resolveProjectId :: "string \<Rightarrow> thrown + string"
  listDocumentsBySlugIds :: "string list \<Rightarrow> int \<Rightarrow> thrown + LinearDocument list"
  rawFindProjectByName :: "string \<Rightarrow> thrown + project_node list option"
  rawListProjects :: "int option \<Rightarrow> bool \<Rightarrow> thrown + jv list option"
  rawGetProject :: "obj \<Rightarrow> thrown + jv"
  rawCreateProject :: "obj \<Rightarrow> thrown + project_payload option"
  rawUpdateProject :: "obj \<Rightarrow> thrown + project_payload option"
  rawArchiveProject :: "string \<Rightarrow> thrown + bool option"
  rawDocumentCreate :: "DocumentCreateInput \<Rightarrow> thrown + document_payload"
  rawDocumentUpdate :: "string \<Rightarrow> obj \<Rightarrow> thrown + document_payload"
  rawGetDocument :: "string \<Rightarrow> thrown + LinearDocument option"
  rawListDocuments :: "int option \<Rightarrow> string option \<Rightarrow> thrown + LinearDocument list"
  rawDocumentDelete :: "string \<Rightarrow> thrown + bool"
  rawAttachmentCreate :: "AttachmentCreateInput \<Rightarrow> thrown + attachment_payload"
  rawAttachmentDelete :: "string \<Rightarrow> thrown + bool"
  rawListAttachments :: "string \<Rightarrow> thrown + LinearAttachment list option"

text \<open>
  An asynchronous computation is the list of calls it made, in order, and how it
  ended: \<open>Inl\<close> a thrown value, \<open>Inr\<close> the value returned.
\<close>

type_synonym 'a io = "call list \<times> (thrown + 'a)"

definition io_return :: "'a \<Rightarrow> 'a io" where
  "io_return a = ([], Inr a)"

definition io_throw :: "thrown \<Rightarrow> 'a io" where
  "io_throw e = ([], Inl e)"

definition io_call :: "call \<Rightarrow> thrown + 'a \<Rightarrow> 'a io" where
  "io_call c r = ([c], r)"

definition io_bind :: "'a io \<Rightarrow> ('a \<Rightarrow> 'b io) \<Rightarrow> 'b io" where
  "io_bind m f =
     (case snd m of
        Inl e \<Rightarrow> (fst m, Inl e)
      | Inr a \<Rightarrow> (fst m @ fst (f a), snd (f a)))"

text \<open>\<^verbatim>\<open>try { m } catch (e) { h(e) }\<close>\<close>

definition io_catch :: "'a io \<Rightarrow> (thrown \<Rightarrow> 'a io) \<Rightarrow> 'a io" where
  "io_catch m h =
     (case snd m of
        Inl e \<Rightarrow> (fst m @ fst (h e), snd (h e))
      | Inr a \<Rightarrow> m)"

text \<open>\<^verbatim>\<open>createGraphQLService\<close>, \<^verbatim>\<open>createLinearService\<close> and the like.\<close>

definition createService :: "env \<Rightarrow> unit io" where
  "createService E = (case auth E of Some e \<Rightarrow> io_throw e | None \<Rightarrow> io_return ())"

section \<open>Projects: \<^verbatim>\<open>src/commands/projects.ts\<close>\<close>

definition transformProject :: "jv \<Rightarrow> jv" where
  "transformProject project =
     (if \<not> js_truthy project then project
      else
        let teams = (let n = opt_chain (get_prop project ''teams'') ''nodes''
                     in if js_truthy n then n else JArr []);
            members = opt_chain (get_prop project ''members'') ''nodes'';
            projectMilestones = opt_chain (get_prop project ''projectMilestones'') ''nodes'';
            issues = opt_chain (get_prop project ''issues'') ''nodes''
        in JObj (obj_set ''issues'' issues
                  (obj_set ''projectMilestones'' projectMilestones
                    (obj_set ''members'' members
                      (obj_set ''teams'' teams (spread project))))))"

definition resolveProjectIdFromGraphQL :: "env \<Rightarrow> string \<Rightarrow> string io" where
  \<open>resolveProjectIdFromGraphQL E projectNameOrId =
     (if isUuid E projectNameOrId then io_return projectNameOrId
      else
        io_bind (io_call (FindProjectByName projectNameOrId)
                   (rawFindProjectByName E projectNameOrId))
          (\<lambda>result.
             let nodes = (case result of None \<Rightarrow> [] | Some ns \<Rightarrow> ns) in
             if length nodes = 0 then
               io_throw (notFoundError E ''Project'' projectNameOrId)
             else if length nodes > 1 then
               let matches = map (\<lambda>p. ''"'' @ node_name p @ ''" ('' @ node_state p @ '')'') nodes
               in io_throw (multipleMatchesError E ''project'' projectNameOrId
                              matches ''use the project ID'')
             else io_return (node_id (nodes ! 0))))\<close>

record ProjectListOptions =
  pl_limit :: "string option"
  pl_includeArchived :: bool

definition projects_list :: "env \<Rightarrow> ProjectListOptions \<Rightarrow> jv io" where
  "projects_list E options =
     io_bind (createService E) (\<lambda>_.
       let first = parseInt (if truthy_str (pl_limit options)
                             then the (pl_limit options) else ''100'') None;
           includeArchived = pl_includeArchived options
       in io_bind (io_call (ListProjects first includeArchived)
                     (rawListProjects E first includeArchived))
            (\<lambda>result.
               let projects = map transformProject
                                (case result of None \<Rightarrow> [] | Some ns \<Rightarrow> ns)
               in io_return (JArr projects)))"

record ProjectReadOptions =
  pr_milestonesFirst :: "string option"
  pr_issuesFirst :: "string option"

definition projects_read :: "env \<Rightarrow> string \<Rightarrow> ProjectReadOptions \<Rightarrow> jv io" where
  "projects_read E projectIdOrName options =
     io_bind (createService E) (\<lambda>_.
     io_bind (resolveProjectIdFromGraphQL E projectIdOrName) (\<lambda>projectId.
       let milestonesFirst =
             parseInt (case pr_milestonesFirst options of None \<Rightarrow> ''25'' | Some s \<Rightarrow> s) None;
           issuesFirst =
             parseInt (case pr_issuesFirst options of None \<Rightarrow> ''50'' | Some s \<Rightarrow> s) None;
           vars = [(''id'', JStr projectId),
                   (''milestonesFirst'',
                      if js_truthy (num_jv milestonesFirst) then num_jv milestonesFirst else JNum 1),
                   (''issuesFirst'',
                      if js_truthy (num_jv issuesFirst) then num_jv issuesFirst else JNum 1),
                   (''skipMilestones'', JBool (milestonesFirst = Some 0)),
                   (''skipIssues'', JBool (issuesFirst = Some 0))]
       in io_bind (io_call (GetProject vars) (rawGetProject E vars))
            (\<lambda>project.
               if \<not> js_truthy project then
                 io_throw (notFoundError E ''Project'' projectIdOrName)
               else io_return (transformProject project))))"

record ProjectCreateOptions =
  pc_team :: string
  pc_description :: "string option"
  pc_icon :: "string option"
  pc_color :: "string option"
  pc_lead :: "string option"
  pc_priority :: "string option"
  pc_startDate :: "string option"
  pc_targetDate :: "string option"

definition projects_create :: "env \<Rightarrow> string \<Rightarrow> ProjectCreateOptions \<Rightarrow> jv io" where
  "projects_create E name options =
     io_bind (createService E) (\<lambda>_.
     io_bind (createService E) (\<lambda>_.
     io_bind (io_call (ResolveTeamId (pc_team options)) (resolveTeamId E (pc_team options)))
       (\<lambda>teamId.
          let vars = [(''name'', JStr name),
                      (''teamIds'', JArr [JStr teamId]),
                      (''description'', opt_jv (pc_description options)),
                      (''icon'', opt_jv (pc_icon options)),
                      (''color'', opt_jv (pc_color options)),
                      (''leadId'', opt_jv (pc_lead options)),
                      (''priority'',
                         if truthy_str (pc_priority options)
                         then num_jv (parseInt (the (pc_priority options)) None)
                         else JUndefined),
                      (''startDate'', opt_jv (pc_startDate options)),
                      (''targetDate'', opt_jv (pc_targetDate options))]
          in io_bind (io_call (CreateProject vars) (rawCreateProject E vars))
               (\<lambda>result.
                  case result of
                    None \<Rightarrow> io_throw (Error ''Failed to create project'')
                  | Some projectCreate \<Rightarrow>
                      if \<not> pp_success projectCreate then
                        io_throw (Error ''Failed to create project'')
                      else io_return (transformProject (pp_project projectCreate))))))"

record ProjectUpdateOptions =
  pu_name :: "string option"
  pu_description :: "string option"
  pu_icon :: "string option"
  pu_color :: "string option"
  pu_lead :: "string option"
  pu_clearLead :: bool
  pu_priority :: "string option"
  pu_startDate :: "string option"
  pu_clearStartDate :: bool
  pu_targetDate :: "string option"
  pu_clearTargetDate :: bool
  pu_team :: "string option"

text \<open>\<^verbatim>\<open>if (x !== undefined) updateVars[k] = x\<close>\<close>

definition set_if_defined :: "string \<Rightarrow> jv option \<Rightarrow> obj \<Rightarrow> obj" where
  "set_if_defined k x updateVars =
     (case x of None \<Rightarrow> updateVars | Some v \<Rightarrow> obj_set k v updateVars)"

text \<open>
  \<^verbatim>\<open>if (clear) updateVars[k] = null; else if (x !== undefined) updateVars[k] = x\<close>
\<close>

definition set_or_clear :: "string \<Rightarrow> bool \<Rightarrow> string option \<Rightarrow> obj \<Rightarrow> obj" where
  "set_or_clear k clear x updateVars =
     (if clear then obj_set k JNull updateVars
      else set_if_defined k (map_option JStr x) updateVars)"

definition projects_update :: "env \<Rightarrow> string \<Rightarrow> ProjectUpdateOptions \<Rightarrow> jv io" where
  "projects_update E projectIdOrName options =
     (if truthy_str (pu_lead options) \<and> pu_clearLead options then
        io_throw (Error ''Cannot use --lead and --clear-lead together'')
      else if truthy_str (pu_startDate options) \<and> pu_clearStartDate options then
        io_throw (Error ''Cannot use --start-date and --clear-start-date together'')
      else if truthy_str (pu_targetDate options) \<and> pu_clearTargetDate options then
        io_throw (Error ''Cannot use --target-date and --clear-target-date together'')
      else
        io_bind (createService E) (\<lambda>_.
        io_bind (createService E) (\<lambda>_.
        io_bind (resolveProjectIdFromGraphQL E projectIdOrName) (\<lambda>projectId.
          let updateVars = [(''id'', JStr projectId)];
              updateVars = set_if_defined ''name'' (map_option JStr (pu_name options)) updateVars;
              updateVars = set_if_defined ''description''
                             (map_option JStr (pu_description options)) updateVars;
              updateVars = set_if_defined ''icon'' (map_option JStr (pu_icon options)) updateVars;
              updateVars = set_if_defined ''color'' (map_option JStr (pu_color options)) updateVars;
              updateVars = set_if_defined ''priority''
                             (map_option (\<lambda>p. num_jv (parseInt p None)) (pu_priority options))
                             updateVars;
              updateVars = set_or_clear ''leadId'' (pu_clearLead options) (pu_lead options)
                             updateVars;
              updateVars = set_or_clear ''startDate'' (pu_clearStartDate options)
                             (pu_startDate options) updateVars;
              updateVars = set_or_clear ''targetDate'' (pu_clearTargetDate options)
                             (pu_targetDate options) updateVars
          in io_bind
               (case pu_team options of
                  None \<Rightarrow> io_return updateVars
                | Some team \<Rightarrow>
                    io_bind (io_call (ResolveTeamId team) (resolveTeamId E team))
                      (\<lambda>teamId. io_return (obj_set ''teamIds'' (JArr [JStr teamId]) updateVars)))
               (\<lambda>updateVars.
                  io_bind (io_call (UpdateProject updateVars) (rawUpdateProject E updateVars))
                    (\<lambda>result.
                       case result of
                         None \<Rightarrow> io_throw (Error ''Failed to update project'')
                       | Some projectUpdate \<Rightarrow>
                           if \<not> pp_success projectUpdate then
                             io_throw (Error ''Failed to update project'')
                           else io_return (transformProject (pp_project projectUpdate))))))))"

definition projects_archive :: "env \<Rightarrow> string \<Rightarrow> jv io" where
  "projects_archive E projectIdOrName =
     io_bind (createService E) (\<lambda>_.
     io_bind (resolveProjectIdFromGraphQL E projectIdOrName) (\<lambda>projectId.
     io_bind (io_call (ArchiveProject projectId) (rawArchiveProject E projectId))
       (\<lambda>result.
          if result \<noteq> Some True then io_throw (Error ''Failed to archive project'')
          else io_return (JObj [(''archived'', JBool True), (''id'', JStr projectId)]))))"

section \<open>Document and attachment services\<close>

text \<open>\<^verbatim>\<open>GraphQLDocumentsService\<close>\<close>

definition createDocument :: "env \<Rightarrow> DocumentCreateInput \<Rightarrow> LinearDocument io" where
  \<open>createDocument E input =
     io_bind (io_call (DocumentCreate input) (rawDocumentCreate E input))
       (\<lambda>documentCreate.
          if \<not> dp_success documentCreate then
            io_throw (Error
              (''Failed to create document "'' @ dci_title input @ ''"''
               @ (if truthy_str (dci_projectId input)
                  then '' in project '' @ the (dci_projectId input) else [])
               @ (if truthy_str (dci_teamId input)
                  then '' for team '' @ the (dci_teamId input) else [])))
          else io_return (dp_document documentCreate))\<close>

definition updateDocument :: "env \<Rightarrow> string \<Rightarrow> obj \<Rightarrow> LinearDocument io" where
  "updateDocument E ident input =
     io_bind (io_call (DocumentUpdate ident input) (rawDocumentUpdate E ident input))
       (\<lambda>documentUpdate.
          if \<not> dp_success documentUpdate then
            io_throw (Error (''Failed to update document: '' @ ident))
          else io_return (dp_document documentUpdate))"

definition getDocument :: "env \<Rightarrow> string \<Rightarrow> LinearDocument io" where
  "getDocument E ident =
     io_bind (io_call (GetDocument ident) (rawGetDocument E ident))
       (\<lambda>document.
          case document of
            None \<Rightarrow> io_throw (Error (''Document not found: '' @ ident))
          | Some d \<Rightarrow> io_return d)"

text \<open>
  \<^verbatim>\<open>listDocuments(options?)\<close>: \<open>first = None\<close> is an absent \<^verbatim>\<open>first\<close>, replaced by 50; the
  filter is the project id when it is truthy.
\<close>

definition listDocuments :: "env \<Rightarrow> string option \<Rightarrow> int option \<Rightarrow> LinearDocument list io" where
  "listDocuments E projectId first =
     (let filter_arg = (if truthy_str projectId then projectId else None);
          first_arg = (case first of None \<Rightarrow> Some 50 | Some n \<Rightarrow> Some n)
      in io_call (ListDocuments first_arg filter_arg) (rawListDocuments E first_arg filter_arg))"

definition deleteDocument :: "env \<Rightarrow> string \<Rightarrow> bool io" where
  "deleteDocument E ident =
     io_bind (io_call (DocumentDelete ident) (rawDocumentDelete E ident))
       (\<lambda>success.
          if \<not> success then io_throw (Error (''Failed to delete document: '' @ ident))
          else io_return True)"

text \<open>\<^verbatim>\<open>GraphQLAttachmentsService\<close>\<close>

definition createAttachment :: "env \<Rightarrow> AttachmentCreateInput \<Rightarrow> LinearAttachment io" where
  \<open>createAttachment E input =
     io_bind (io_call (AttachmentCreate input) (rawAttachmentCreate E input))
       (\<lambda>attachmentCreate.
          if \<not> ap_success attachmentCreate then
            io_throw (Error
              (''Failed to create attachment on issue '' @ aci_issueId input
               @ '' for URL "'' @ aci_url input @ ''"''))
          else io_return (ap_attachment attachmentCreate))\<close>

definition deleteAttachment :: "env \<Rightarrow> string \<Rightarrow> bool io" where
  "deleteAttachment E ident =
     io_bind (io_call (AttachmentDelete ident) (rawAttachmentDelete E ident))
       (\<lambda>success.
          if \<not> success then io_throw (Error (''Failed to delete attachment: '' @ ident))
          else io_return True)"

definition listAttachments :: "env \<Rightarrow> string \<Rightarrow> LinearAttachment list io" where
  "listAttachments E issueId =
     io_bind (io_call (ListAttachments issueId) (rawListAttachments E issueId))
       (\<lambda>issue.
          case issue of
            None \<Rightarrow> io_throw (Error (''Issue not found: '' @ issueId))
          | Some nodes \<Rightarrow> io_return nodes)"

section \<open>Documents commands\<close>

text \<open>\<^verbatim>\<open>Array.prototype.indexOf\<close> and \<^verbatim>\<open>String.prototype.lastIndexOf\<close> with one character.\<close>

fun indexOf :: "'a list \<Rightarrow> 'a \<Rightarrow> int" where
  "indexOf [] x = -1"
| "indexOf (y # ys) x =
     (if y = x then 0 else (let i = indexOf ys x in if i = -1 then -1 else i + 1))"

definition lastIndexOf :: "'a list \<Rightarrow> 'a \<Rightarrow> int" where
  "lastIndexOf s c =
     (let i = indexOf (rev s) c in if i = -1 then -1 else int (length s) - 1 - i)"

text \<open>\<^verbatim>\<open>s.split(c)\<close> with a one-character separator.\<close>

fun split_on :: "char \<Rightarrow> string \<Rightarrow> string list" where
  "split_on c [] = [[]]"
| "split_on c (x # xs) =
     (if x = c then [] # split_on c xs
      else (case split_on c xs of
              [] \<Rightarrow> [[x]]
            | w # ws \<Rightarrow> (x # w) # ws))"

definition extractDocumentIdFromUrl :: "env \<Rightarrow> string \<Rightarrow> string option" where
  "extractDocumentIdFromUrl E url =
     (case parseURL E url of
        None \<Rightarrow> None
      | Some parsed \<Rightarrow>
          if \<not> sublist ''linear.app'' (hostname parsed) then None
          else
            let pathParts = split_on CHR ''/'' (pathname parsed);
                docIndex = indexOf pathParts ''document''
            in if docIndex = -1 \<or> docIndex \<ge> int (length pathParts) - 1 then None
               else
                 let docSlug = pathParts ! nat (docIndex + 1);
                     lastHyphenIndex = lastIndexOf docSlug CHR ''-''
                 in if lastHyphenIndex = -1 then
                      (if docSlug = [] then None else Some docSlug)
                    else
                      let r = drop (nat (lastHyphenIndex + 1)) docSlug
                      in if r = [] then None else Some r)"

text \<open>
  \<^verbatim>\<open>[...new Set(xs)]\<close>: a set keeps the order of first insertion and ignores a value it
  already holds.
\<close>

definition new_Set :: "'a list \<Rightarrow> 'a list" where
  "new_Set xs = foldl (\<lambda>s x. if x \<in> set s then s else s @ [x]) [] xs"

record DocumentCreateOptions =
  dco_title :: string
  dco_content :: "string option"
  dco_project :: "string option"
  dco_team :: "string option"
  dco_icon :: "string option"
  dco_color :: "string option"
  dco_attachTo :: "string option"

text \<open>\<^verbatim>\<open>let x; if (o) x = await resolve(o)\<close>\<close>

definition resolve_if_given ::
  "(string \<Rightarrow> call) \<Rightarrow> (string \<Rightarrow> thrown + string) \<Rightarrow> string option \<Rightarrow> string option io" where
  "resolve_if_given c resolve so =
     (if truthy_str so then
        io_bind (io_call (c (the so)) (resolve (the so))) (\<lambda>r. io_return (Some r))
      else io_return None)"

text \<open>\<^verbatim>\<open>attachError instanceof Error ? attachError.message : String(attachError)\<close>\<close>

definition errorMessage :: "thrown \<Rightarrow> string" where
  "errorMessage attachError = (case attachError of Error m \<Rightarrow> m | NonError s \<Rightarrow> s)"

definition documents_create :: "env \<Rightarrow> DocumentCreateOptions \<Rightarrow> LinearDocument io" where
  \<open>documents_create E options =
     io_bind (createService E) (\<lambda>_.
     io_bind (createService E) (\<lambda>_.
     io_bind (resolve_if_given ResolveProjectId (resolveProjectId E) (dco_project options))
       (\<lambda>projectId.
     io_bind (resolve_if_given ResolveTeamId (resolveTeamId E) (dco_team options))
       (\<lambda>teamId.
     io_bind (createDocument E
                \<lparr>dci_title = dco_title options, dci_content = dco_content options,
                 dci_projectId = projectId, dci_teamId = teamId,
                 dci_icon = dco_icon options, dci_color = dco_color options\<rparr>)
       (\<lambda>document.
     io_bind
       (if truthy_str (dco_attachTo options) then
          io_bind (createService E) (\<lambda>_.
          io_bind (io_call (ResolveIssueId (the (dco_attachTo options)))
                     (resolveIssueId E (the (dco_attachTo options))))
            (\<lambda>issueId.
               io_catch
                 (io_bind (createAttachment E
                             \<lparr>aci_issueId = issueId, aci_url = doc_url document,
                              aci_title = doc_title document, aci_subtitle = None,
                              aci_commentBody = None, aci_iconUrl = None\<rparr>)
                    (\<lambda>_. io_return ()))
                 (\<lambda>attachError.
                    io_throw (Error
                      (''Document created ('' @ doc_id document
                       @ '') but failed to attach to issue "'' @ tmpl_opt (dco_attachTo options)
                       @ ''": '' @ errorMessage attachError @ ''. ''
                       @ ''To retry attachment: linearis attachments create --issue "''
                       @ tmpl_opt (dco_attachTo options)
                       @ ''" --url "'' @ doc_url document
                       @ ''" --title "'' @ doc_title document @ ''"'')))))
        else io_return ())
       (\<lambda>_. io_return document))))))\<close>

record DocumentListOptions =
  dlo_project :: "string option"
  dlo_issue :: "string option"
  dlo_limit :: "string option"

definition documents_list :: "env \<Rightarrow> DocumentListOptions \<Rightarrow> LinearDocument list io" where
  \<open>documents_list E options =
     (if truthy_str (dlo_project options) \<and> truthy_str (dlo_issue options) then
        io_throw (Error ''Cannot use --project and --issue together. Choose one filter.'')
      else
        io_bind (createService E) (\<lambda>_.
        io_bind (createService E) (\<lambda>_.
          let limit = parseInt (if truthy_str (dlo_limit options)
                                then the (dlo_limit options) else ''50'') (Some 10)
          in if limit = None \<or> the limit < 1 then
               io_throw (Error (''Invalid limit "'' @ tmpl_opt (dlo_limit options)
                                @ ''": must be a positive number''))
             else if truthy_str (dlo_issue options) then
               io_bind (createService E) (\<lambda>_.
               io_bind (io_call (ResolveIssueId (the (dlo_issue options)))
                          (resolveIssueId E (the (dlo_issue options))))
                 (\<lambda>issueId.
               io_bind (listAttachments E issueId) (\<lambda>attachments.
                 let documentSlugIds =
                       new_Set (map the (filter (\<lambda>ident. ident \<noteq> None)
                                  (map (\<lambda>att. extractDocumentIdFromUrl E (att_url att))
                                     attachments)))
                 in if length documentSlugIds = 0 then io_return []
                    else io_call (ListDocumentsBySlugIds documentSlugIds (the limit))
                           (listDocumentsBySlugIds E documentSlugIds (the limit)))))
             else
               io_bind (resolve_if_given ResolveProjectId (resolveProjectId E)
                          (dlo_project options))
                 (\<lambda>projectId. listDocuments E projectId limit))))\<close>

section \<open>The update payload in the words of the specification\<close>

text \<open>
  "Update payloads include exactly the explicitly-set fields; omitted fields never
  appear in the outgoing mutation variables; an explicit clear (null) is
  distinguishable from not provided." As a finite map from the names of the mutation
  variables: the project id, every option the caller gave under its variable name, an
  explicit null for a field whose clear flag is set, the resolved team when \<^verbatim>\<open>--team\<close>
  was given, and nothing else.
\<close>

definition explicit_update_fields ::
  "string \<Rightarrow> string option \<Rightarrow> ProjectUpdateOptions \<Rightarrow> (string \<rightharpoonup> jv)" where
  "explicit_update_fields projectId teamId options =
     (\<lambda>k. if k = ''id'' then Some (JStr projectId)
          else if k = ''name'' then map_option JStr (pu_name options)
          else if k = ''description'' then map_option JStr (pu_description options)
          else if k = ''icon'' then map_option JStr (pu_icon options)
          else if k = ''color'' then map_option JStr (pu_color options)
          else if k = ''priority'' then
            map_option (\<lambda>p. num_jv (parseInt p None)) (pu_priority options)
          else if k = ''leadId'' then
            (if pu_clearLead options then Some JNull else map_option JStr (pu_lead options))
          else if k = ''startDate'' then
            (if pu_clearStartDate options then Some JNull
             else map_option JStr (pu_startDate options))
          else if k = ''targetDate'' then
            (if pu_clearTargetDate options then Some JNull
             else map_option JStr (pu_targetDate options))
          else if k = ''teamIds'' then map_option (\<lambda>t. JArr [JStr t]) teamId
          else None)"

text \<open>
  The object that \<^verbatim>\<open>projects update\<close> has built when it reaches the team lookup: the
  assignments of the action, in their order, named for the proofs.
\<close>

definition updateVars_before_team :: "string \<Rightarrow> ProjectUpdateOptions \<Rightarrow> obj" where
  "updateVars_before_team projectId options =
     set_or_clear ''targetDate'' (pu_clearTargetDate options) (pu_targetDate options)
      (set_or_clear ''startDate'' (pu_clearStartDate options) (pu_startDate options)
        (set_or_clear ''leadId'' (pu_clearLead options) (pu_lead options)
          (set_if_defined ''priority''
             (map_option (\<lambda>p. num_jv (parseInt p None)) (pu_priority options))
            (set_if_defined ''color'' (map_option JStr (pu_color options))
              (set_if_defined ''icon'' (map_option JStr (pu_icon options))
                (set_if_defined ''description'' (map_option JStr (pu_description options))
                  (set_if_defined ''name'' (map_option JStr (pu_name options))
                    [(''id'', JStr projectId)])))))))"

section \<open>A concrete environment\<close>

text \<open>
  Modelled from the spec: the identifier classifier of \<^verbatim>\<open>utils/uuid.js\<close>, whose file is
  not among the sources. The spec describes an opaque identifier as "fixed-length
  hyphenated hexadecimal groups"; the groups are taken to have 8, 4, 4, 4 and 12 digits.
\<close>

definition isUuid_shape :: "string \<Rightarrow> bool" where
  "isUuid_shape s =
     (map length (split_on CHR ''-'' s) = [8, 4, 4, 4, 12]
      \<and> list_all (isDigitIn 16) (concat (split_on CHR ''-'' s)))"

text \<open>
  Modelled from the spec: the two constructors of \<^verbatim>\<open>utils/error-messages.js\<close>, whose
  file is not among the sources. The spec asks for a not-found error "naming the
  field and value" and an ambiguity error "listing the candidates"; the wording of the
  messages is an assumption of this sample only.
\<close>

definition sample_notFoundError :: "string \<Rightarrow> string \<Rightarrow> thrown" where
  \<open>sample_notFoundError entity ident = Error (entity @ '' "'' @ ident @ ''" not found'')\<close>

definition sample_multipleMatchesError ::
  "string \<Rightarrow> string \<Rightarrow> string list \<Rightarrow> string \<Rightarrow> thrown" where
  \<open>sample_multipleMatchesError entity ident matches hint =
     Error (''Multiple '' @ entity @ ''s found matching "'' @ ident @ ''". Candidates: ''
            @ concat (map (\<lambda>m. m @ ''; '') matches) @ ''Please '' @ hint @ ''.'')\<close>

text \<open>
  The components that the platform's URL parser gives for a few attachment URLs; every
  other string of this sample is taken to be rejected by the parser, as
  \<^verbatim>\<open>not a url\<close> is.
\<close>

definition sample_parseURL :: "string \<Rightarrow> parsed_url option" where
  "sample_parseURL url =
     (if url = ''https://linear.app/acme/document/design-notes-abc123'' then
        Some \<lparr>hostname = ''linear.app'', pathname = ''/acme/document/design-notes-abc123''\<rparr>
      else if url = ''https://linear.app/acme/document/roadmap-def456'' then
        Some \<lparr>hostname = ''linear.app'', pathname = ''/acme/document/roadmap-def456''\<rparr>
      else if url = ''https://github.com/acme/repo/pull/7'' then
        Some \<lparr>hostname = ''github.com'', pathname = ''/acme/repo/pull/7''\<rparr>
      else if url = ''https://linear.app/acme/issue/ENG-1/fix-login'' then
        Some \<lparr>hostname = ''linear.app'', pathname = ''/acme/issue/ENG-1/fix-login''\<rparr>
      else if url = ''https://notlinear.app/acme/document/design-notes-abc123'' then
        Some \<lparr>hostname = ''notlinear.app'', pathname = ''/acme/document/design-notes-abc123''\<rparr>
      else None)"

definition sample_document :: "string \<Rightarrow> LinearDocument" where
  "sample_document slug =
     \<lparr>doc_id = ''doc-'' @ slug, doc_title = ''Design notes'', doc_content = None,
      doc_slugId = slug, doc_url = ''https://linear.app/acme/document/design-notes-'' @ slug,
      doc_icon = None, doc_color = None,
      doc_createdAt = ''2025-01-01T00:00:00.000Z'', doc_updatedAt = ''2025-01-01T00:00:00.000Z'',
      doc_creator = None, doc_project = None, doc_trashed = Some False\<rparr>"

definition sample_attachment :: "string \<Rightarrow> string \<Rightarrow> LinearAttachment" where
  "sample_attachment ident url =
     \<lparr>att_id = ident, att_title = ''Link'', att_subtitle = None, att_url = url,
      att_createdAt = ''2025-01-01T00:00:00.000Z'', att_updatedAt = ''2025-01-01T00:00:00.000Z'',
      att_issue = (''issue-ENG-1'', ''ENG-1'', ''Fix login''), att_creator = None\<rparr>"

definition sample_attachments :: "LinearAttachment list" where
  "sample_attachments =
     [sample_attachment ''a1'' ''https://linear.app/acme/document/design-notes-abc123'',
      sample_attachment ''a2'' ''not a url'',
      sample_attachment ''a3'' ''https://github.com/acme/repo/pull/7'',
      sample_attachment ''a4'' ''https://linear.app/acme/document/roadmap-def456'',
      sample_attachment ''a5'' ''https://linear.app/acme/document/design-notes-abc123'']"

definition sample_project :: jv where
  "sample_project =
     JObj [(''id'', JStr ''p-1''), (''name'', JStr ''Website''), (''lead'', JNull),
           (''teams'', JObj [(''nodes'', JArr [JObj [(''id'', JStr ''t-1''), (''key'', JStr ''ENG'')]])])]"

text \<open>
  The remote of the sample: three projects named \<^verbatim>\<open>Roadmap\<close> (two of them) and
  \<^verbatim>\<open>Website\<close>; project creation is refused, updates and archiving succeed; document
  creation succeeds and attachment creation is refused; issue \<^verbatim>\<open>ENG-1\<close> carries
  \<open>sample_attachments\<close>, issue \<^verbatim>\<open>ENG-2\<close> only a link that is no document, issue
  \<^verbatim>\<open>ENG-3\<close> only a link to a host that is not Linear's.
\<close>

definition sample_env :: env where
  "sample_env =
     \<lparr>isUuid = isUuid_shape,
      notFoundError = sample_notFoundError,
      multipleMatchesError = sample_multipleMatchesError,
      parseURL = sample_parseURL,
      auth = None,
      resolveTeamId = (\<lambda>t. Inr (''team-'' @ t)),
      resolveIssueId = (\<lambda>i. Inr (''issue-'' @ i)),
      resolveProjectId = (\<lambda>p. Inr (''project-'' @ p)),
      listDocumentsBySlugIds = (\<lambda>ids lim. Inr (take (nat lim) (map sample_document ids))),
      rawFindProjectByName = (\<lambda>n.
         if n = ''Roadmap'' then
           Inr (Some [\<lparr>node_id = ''p-2'', node_name = ''Roadmap'', node_state = ''started''\<rparr>,
                      \<lparr>node_id = ''p-3'', node_name = ''roadmap'', node_state = ''planned''\<rparr>])
         else if n = ''Website'' then
           Inr (Some [\<lparr>node_id = ''p-1'', node_name = ''Website'', node_state = ''started''\<rparr>])
         else Inr (Some [])),
      rawListProjects = (\<lambda>first includeArchived. Inr (Some [sample_project])),
      rawGetProject = (\<lambda>vars. Inr sample_project),
      rawCreateProject = (\<lambda>vars. Inr (Some \<lparr>pp_success = False, pp_project = JNull\<rparr>)),
      rawUpdateProject = (\<lambda>vars. Inr (Some \<lparr>pp_success = True, pp_project = sample_project\<rparr>)),
      rawArchiveProject = (\<lambda>ident. Inr (Some True)),
      rawDocumentCreate = (\<lambda>input.
         Inr \<lparr>dp_success = True, dp_document = sample_document ''abc123''\<rparr>),
      rawDocumentUpdate = (\<lambda>ident input.
         Inr \<lparr>dp_success = False, dp_document = sample_document ''abc123''\<rparr>),
      rawGetDocument = (\<lambda>ident. Inr None),
      rawListDocuments = (\<lambda>first flt. Inr [sample_document ''abc123'']),
      rawDocumentDelete = (\<lambda>ident. Inr False),
      rawAttachmentCreate = (\<lambda>input.
         Inr \<lparr>ap_success = False, ap_attachment = sample_attachment ''a0'' (aci_url input)\<rparr>),
      rawAttachmentDelete = (\<lambda>ident. Inr False),
      rawListAttachments = (\<lambda>issueId.
         if issueId = ''issue-ENG-1'' then Inr (Some sample_attachments)
         else if issueId = ''issue-ENG-2'' then
           Inr (Some [sample_attachment ''a6'' ''https://github.com/acme/repo/pull/7''])
         else if issueId = ''issue-ENG-3'' then
           Inr (Some [sample_attachment ''a7''
                        ''https://notlinear.app/acme/document/design-notes-abc123''])
         else Inr None)\<rparr>"

definition no_update_options :: ProjectUpdateOptions where
  "no_update_options =
     \<lparr>pu_name = None, pu_description = None, pu_icon = None, pu_color = None,
      pu_lead = None, pu_clearLead = False, pu_priority = None,
      pu_startDate = None, pu_clearStartDate = False,
      pu_targetDate = None, pu_clearTargetDate = False, pu_team = None\<rparr>"

section \<open>Lemmas about the effect model\<close>

lemma io_bind_return [simp]: "io_bind (io_return a) f = f a"
  by (simp add: io_bind_def io_return_def)

lemma io_bind_throw [simp]: "io_bind (io_throw e) f = io_throw e"
  by (simp add: io_bind_def io_throw_def)

lemma io_bind_call_Inr [simp]: "io_bind (io_call c (Inr a)) f = (c # fst (f a), snd (f a))"
  by (simp add: io_bind_def io_call_def)

lemma io_bind_call_Inl [simp]: "io_bind (io_call c (Inl e)) f = ([c], Inl e)"
  by (simp add: io_bind_def io_call_def)

lemma createService_ok [simp]: "auth E = None \<Longrightarrow> createService E = io_return ()"
  by (simp add: createService_def)

lemma createService_trace [simp]: "fst (createService E) = []"
  by (simp add: createService_def io_throw_def io_return_def split: option.splits)

lemma fst_io_throw [simp]: "fst (io_throw e) = []" and snd_io_throw [simp]: "snd (io_throw e) = Inl e"
  by (simp_all add: io_throw_def)

lemma fst_io_return [simp]: "fst (io_return a) = []" and snd_io_return [simp]: "snd (io_return a) = Inr a"
  by (simp_all add: io_return_def)

lemma fst_io_call [simp]: "fst (io_call c r) = [c]" and snd_io_call [simp]: "snd (io_call c r) = r"
  by (simp_all add: io_call_def)

lemma fst_io_bind:
  "fst (io_bind m f) = fst m @ (case snd m of Inl e \<Rightarrow> [] | Inr a \<Rightarrow> fst (f a))"
  by (simp add: io_bind_def split: sum.splits)

lemma snd_io_bind:
  "snd (io_bind m f) = (case snd m of Inl e \<Rightarrow> Inl e | Inr a \<Rightarrow> snd (f a))"
  by (simp add: io_bind_def split: sum.splits)

lemma io_bind_failed: "snd m = Inl e \<Longrightarrow> io_bind m f = (fst m, Inl e)"
  by (simp add: io_bind_def)

lemma io_bind_pair_Inr: "io_bind (t, Inr a) f = (t @ fst (f a), snd (f a))"
  by (simp add: io_bind_def)

lemma io_bind_pair_Inl: "io_bind (t, Inl e) f = (t, Inl e)"
  by (simp add: io_bind_def)

lemma io_catch_pair_Inl: "io_catch (t, Inl e) h = (t @ fst (h e), snd (h e))"
  by (simp add: io_catch_def)

lemma io_catch_pair_Inr: "io_catch (t, Inr a) h = (t, Inr a)"
  by (simp add: io_catch_def)

section \<open>Project resolution\<close>

lemma resolve_uuid: "isUuid E s \<Longrightarrow> resolveProjectIdFromGraphQL E s = ([], Inr s)"
  by (simp add: resolveProjectIdFromGraphQL_def io_return_def)

lemma resolve_none:
  assumes "\<not> isUuid E s" "rawFindProjectByName E s = Inr r" "r = None \<or> r = Some []"
  shows "resolveProjectIdFromGraphQL E s = ([FindProjectByName s], Inl (notFoundError E ''Project'' s))"
  using assms by (auto simp add: resolveProjectIdFromGraphQL_def)

lemma resolve_many:
  assumes "\<not> isUuid E s" "rawFindProjectByName E s = Inr (Some ns)" "length ns > 1"
  shows \<open>resolveProjectIdFromGraphQL E s =
     ([FindProjectByName s],
      Inl (multipleMatchesError E ''project'' s
            (map (\<lambda>p. ''"'' @ node_name p @ ''" ('' @ node_state p @ '')'') ns)
            ''use the project ID''))\<close>
  using assms by (auto simp add: resolveProjectIdFromGraphQL_def Let_def)

lemma resolve_one:
  assumes "\<not> isUuid E s" "rawFindProjectByName E s = Inr (Some [n])"
  shows "resolveProjectIdFromGraphQL E s = ([FindProjectByName s], Inr (node_id n))"
  using assms by (auto simp add: resolveProjectIdFromGraphQL_def Let_def)

lemma resolve_trace: "fst (resolveProjectIdFromGraphQL E s) = (if isUuid E s then [] else [FindProjectByName s])"
  by (simp add: resolveProjectIdFromGraphQL_def fst_io_bind Let_def split: sum.splits)


lemma projects_read_resolve_fails:
  assumes "snd (resolveProjectIdFromGraphQL E s) = Inl e"
  shows "projects_read E s ro =
           (case auth E of None \<Rightarrow> (fst (resolveProjectIdFromGraphQL E s), Inl e)
            | Some a \<Rightarrow> ([], Inl a))"
  using assms
  by (simp add: projects_read_def createService_def io_bind_failed io_throw_def split: option.splits)

lemma projects_archive_resolve_fails:
  assumes "snd (resolveProjectIdFromGraphQL E s) = Inl e"
  shows "projects_archive E s =
           (case auth E of None \<Rightarrow> (fst (resolveProjectIdFromGraphQL E s), Inl e)
            | Some a \<Rightarrow> ([], Inl a))"
  using assms
  by (simp add: projects_archive_def createService_def io_bind_failed io_throw_def split: option.splits)

lemma projects_update_resolve_fails:
  assumes "snd (resolveProjectIdFromGraphQL E s) = Inl e"
  shows "projects_update E s uo = (fst (resolveProjectIdFromGraphQL E s), Inl e)
       \<or> fst (projects_update E s uo) = []"
  using assms
  by (simp add: projects_update_def createService_def io_bind_failed io_throw_def split: option.splits)

text \<open>
  Claim C5. An input that the identifier classifier accepts is returned unchanged by
  project resolution, and the lookup is skipped: resolution makes no call at all, and
  no \<^verbatim>\<open>projects read\<close>, \<^verbatim>\<open>update\<close> or \<^verbatim>\<open>archive\<close> invocation with such an input sends a
  find-by-name request, for any name.
\<close>

theorem uuid_input_skips_lookup:
  assumes "isUuid E s"
  shows "resolveProjectIdFromGraphQL E s = ([], Inr s)
       \<and> FindProjectByName n \<notin> set (fst (projects_read E s ro))
       \<and> FindProjectByName n \<notin> set (fst (projects_update E s uo))
       \<and> FindProjectByName n \<notin> set (fst (projects_archive E s))"
proof -
  have r: "resolveProjectIdFromGraphQL E s = io_return s"
    using assms by (simp add: resolveProjectIdFromGraphQL_def)
  have "FindProjectByName n \<notin> set (fst (projects_read E s ro))"
    by (simp add: projects_read_def r fst_io_bind Let_def split: sum.splits)
  moreover have "FindProjectByName n \<notin> set (fst (projects_archive E s))"
    by (simp add: projects_archive_def r fst_io_bind Let_def split: sum.splits)
  moreover have "FindProjectByName n \<notin> set (fst (projects_update E s uo))"
    by (simp add: projects_update_def r fst_io_bind Let_def split: sum.splits option.splits)
  ultimately show ?thesis using r by (simp add: io_return_def)
qed


text \<open>The fields of the concrete environment, for running the commands on it.\<close>

lemma sample_env_fields:
  "isUuid sample_env = isUuid_shape"
  "notFoundError sample_env = sample_notFoundError"
  "multipleMatchesError sample_env = sample_multipleMatchesError"
  "parseURL sample_env = sample_parseURL"
  "auth sample_env = None"
  "resolveTeamId sample_env t = Inr (''team-'' @ t)"
  "resolveIssueId sample_env i = Inr (''issue-'' @ i)"
  "resolveProjectId sample_env p = Inr (''project-'' @ p)"
  "listDocumentsBySlugIds sample_env ids lim = Inr (take (nat lim) (map sample_document ids))"
  "rawFindProjectByName sample_env ''Ghost'' = Inr (Some [])"
  "rawFindProjectByName sample_env ''Website''
     = Inr (Some [\<lparr>node_id = ''p-1'', node_name = ''Website'', node_state = ''started''\<rparr>])"
  "rawFindProjectByName sample_env ''Roadmap''
     = Inr (Some [\<lparr>node_id = ''p-2'', node_name = ''Roadmap'', node_state = ''started''\<rparr>,
                  \<lparr>node_id = ''p-3'', node_name = ''roadmap'', node_state = ''planned''\<rparr>])"
  "rawListProjects sample_env first includeArchived = Inr (Some [sample_project])"
  "rawCreateProject sample_env vars = Inr (Some \<lparr>pp_success = False, pp_project = JNull\<rparr>)"
  "rawUpdateProject sample_env vars = Inr (Some \<lparr>pp_success = True, pp_project = sample_project\<rparr>)"
  "rawArchiveProject sample_env ident = Inr (Some True)"
  "rawDocumentCreate sample_env input
     = Inr \<lparr>dp_success = True, dp_document = sample_document ''abc123''\<rparr>"
  "rawAttachmentCreate sample_env ainput
     = Inr \<lparr>ap_success = False, ap_attachment = sample_attachment ''a0'' (aci_url ainput)\<rparr>"
  "rawListAttachments sample_env ''issue-ENG-1'' = Inr (Some sample_attachments)"
  "rawListAttachments sample_env ''issue-ENG-2''
     = Inr (Some [sample_attachment ''a6'' ''https://github.com/acme/repo/pull/7''])"
  "rawListAttachments sample_env ''issue-ENG-3''
     = Inr (Some [sample_attachment ''a7''
                    ''https://notlinear.app/acme/document/design-notes-abc123''])"
  by (simp_all add: sample_env_def)

theorem uuid_input_skips_lookup_witness:
  "isUuid sample_env ''123e4567-e89b-12d3-a456-426614174000''
   \<and> resolveProjectIdFromGraphQL sample_env ''123e4567-e89b-12d3-a456-426614174000''
       = ([], Inr ''123e4567-e89b-12d3-a456-426614174000'')
   \<and> fst (projects_archive sample_env ''123e4567-e89b-12d3-a456-426614174000'')
       = [ArchiveProject ''123e4567-e89b-12d3-a456-426614174000'']"
proof -
  have h: "isUuid sample_env ''123e4567-e89b-12d3-a456-426614174000''"
    by (simp add: sample_env_fields isUuid_shape_def isDigitIn_def digitValue_def)
  have r: "resolveProjectIdFromGraphQL sample_env ''123e4567-e89b-12d3-a456-426614174000''
       = ([], Inr ''123e4567-e89b-12d3-a456-426614174000'')"
    using uuid_input_skips_lookup [OF h] by simp
  have a: "fst (projects_archive sample_env ''123e4567-e89b-12d3-a456-426614174000'')
       = [ArchiveProject ''123e4567-e89b-12d3-a456-426614174000'']"
    by (simp add: projects_archive_def sample_env_fields r fst_io_bind)
  show ?thesis using h r a by simp
qed

text \<open>
  Claim C4. When the input is not an opaque identifier and the lookup by name returns
  no match (an empty node list, or no node list at all), resolution fails with the
  not-found error built from the entity kind \<^verbatim>\<open>Project\<close> and the value the user gave.
  Every command that got as far as the lookup ends there with that error, and none of
  them issues a mutation.
\<close>

theorem zero_matches_not_found:
  assumes "\<not> isUuid E s"
    and "rawFindProjectByName E s = Inr r"
    and "r = None \<or> r = Some []"
  shows "resolveProjectIdFromGraphQL E s
           = ([FindProjectByName s], Inl (notFoundError E ''Project'' s))
       \<and> (FindProjectByName s \<in> set (fst (projects_read E s ro)) \<longrightarrow>
            projects_read E s ro
              = ([FindProjectByName s], Inl (notFoundError E ''Project'' s)))
       \<and> (FindProjectByName s \<in> set (fst (projects_update E s uo)) \<longrightarrow>
            projects_update E s uo
              = ([FindProjectByName s], Inl (notFoundError E ''Project'' s)))
       \<and> (FindProjectByName s \<in> set (fst (projects_archive E s)) \<longrightarrow>
            projects_archive E s
              = ([FindProjectByName s], Inl (notFoundError E ''Project'' s)))
       \<and> (\<forall>c \<in> set (fst (projects_read E s ro)) \<union> set (fst (projects_update E s uo))
                  \<union> set (fst (projects_archive E s)). \<not> is_mutation c)"
proof -
  have r: "resolveProjectIdFromGraphQL E s
             = ([FindProjectByName s], Inl (notFoundError E ''Project'' s))"
    using assms by (rule resolve_none)
  then have f: "snd (resolveProjectIdFromGraphQL E s) = Inl (notFoundError E ''Project'' s)"
    by simp
  have rd: "projects_read E s ro = ([FindProjectByName s], Inl (notFoundError E ''Project'' s))
            \<or> fst (projects_read E s ro) = []"
    using projects_read_resolve_fails [OF f, of ro] r by (simp split: option.splits)
  have ar: "projects_archive E s = ([FindProjectByName s], Inl (notFoundError E ''Project'' s))
            \<or> fst (projects_archive E s) = []"
    using projects_archive_resolve_fails [OF f] r by (simp split: option.splits)
  have up: "projects_update E s uo = ([FindProjectByName s], Inl (notFoundError E ''Project'' s))
            \<or> fst (projects_update E s uo) = []"
    using projects_update_resolve_fails [OF f, of uo] r by simp
  show ?thesis using r rd ar up by auto
qed

theorem zero_matches_not_found_witness:
  "\<not> isUuid sample_env ''Ghost''
   \<and> rawFindProjectByName sample_env ''Ghost'' = Inr (Some [])
   \<and> projects_archive sample_env ''Ghost''
       = ([FindProjectByName ''Ghost''], Inl (sample_notFoundError ''Project'' ''Ghost''))
   \<and> projects_update sample_env ''Ghost'' (no_update_options\<lparr>pu_name := Some ''Spectre''\<rparr>)
       = ([FindProjectByName ''Ghost''], Inl (sample_notFoundError ''Project'' ''Ghost''))
   \<and> projects_read sample_env ''Ghost'' \<lparr>pr_milestonesFirst = None, pr_issuesFirst = None\<rparr>
       = ([FindProjectByName ''Ghost''], Inl (sample_notFoundError ''Project'' ''Ghost''))"
proof -
  have h1: "\<not> isUuid sample_env ''Ghost''"
    by (simp add: sample_env_fields isUuid_shape_def)
  have h2: "rawFindProjectByName sample_env ''Ghost'' = Inr (Some [])"
    by (simp add: sample_env_fields)
  have r: "resolveProjectIdFromGraphQL sample_env ''Ghost''
             = ([FindProjectByName ''Ghost''], Inl (notFoundError sample_env ''Project'' ''Ghost''))"
    using zero_matches_not_found [OF h1 h2] by simp
  have a: "auth sample_env = None" by (simp add: sample_env_fields)
  have t1: "FindProjectByName ''Ghost'' \<in> set (fst (projects_archive sample_env ''Ghost''))"
    by (simp add: projects_archive_def a r io_bind_def)
  have t2: "FindProjectByName ''Ghost''
              \<in> set (fst (projects_update sample_env ''Ghost'' (no_update_options\<lparr>pu_name := Some ''Spectre''\<rparr>)))"
    by (simp add: projects_update_def a r io_bind_def no_update_options_def truthy_str_def)
  have t3: "FindProjectByName ''Ghost''
              \<in> set (fst (projects_read sample_env ''Ghost'' \<lparr>pr_milestonesFirst = None, pr_issuesFirst = None\<rparr>))"
    by (simp add: projects_read_def a r io_bind_def)
  have n: "notFoundError sample_env = sample_notFoundError" by (simp add: sample_env_fields)
  show ?thesis
    using h1 h2 t1 t2 t3 n
      zero_matches_not_found [OF h1 h2, where
        ro = "\<lparr>pr_milestonesFirst = None, pr_issuesFirst = None\<rparr>" and
        uo = "no_update_options\<lparr>pu_name := Some ''Spectre''\<rparr>"]
    by simp
qed

text \<open>
  Claim C3. When the input is not an opaque identifier and the lookup by name returns
  more than one match, resolution fails with the ambiguity error built from the user's
  input and one entry per returned candidate, in order, each showing that candidate's
  name and state. Project resolution takes no scoping context, so nothing resolves the
  tie. Every command that got as far as the lookup ends there with that error, and none
  of them issues a mutation.
\<close>

theorem many_matches_ambiguous:
  assumes "\<not> isUuid E s"
    and "rawFindProjectByName E s = Inr (Some ns)"
    and "length ns > 1"
  shows \<open>(let matches = map (\<lambda>p. ''"'' @ node_name p @ ''" ('' @ node_state p @ '')'') ns;
              err = multipleMatchesError E ''project'' s matches ''use the project ID''
          in resolveProjectIdFromGraphQL E s = ([FindProjectByName s], Inl err)
           \<and> (FindProjectByName s \<in> set (fst (projects_read E s ro)) \<longrightarrow>
                projects_read E s ro = ([FindProjectByName s], Inl err))
           \<and> (FindProjectByName s \<in> set (fst (projects_update E s uo)) \<longrightarrow>
                projects_update E s uo = ([FindProjectByName s], Inl err))
           \<and> (FindProjectByName s \<in> set (fst (projects_archive E s)) \<longrightarrow>
                projects_archive E s = ([FindProjectByName s], Inl err)))
       \<and> (\<forall>c \<in> set (fst (projects_read E s ro)) \<union> set (fst (projects_update E s uo))
                  \<union> set (fst (projects_archive E s)). \<not> is_mutation c)\<close>
proof -
  define err where
    \<open>err = multipleMatchesError E ''project'' s
             (map (\<lambda>p. ''"'' @ node_name p @ ''" ('' @ node_state p @ '')'') ns)
             ''use the project ID''\<close>
  have r: "resolveProjectIdFromGraphQL E s = ([FindProjectByName s], Inl err)"
    unfolding err_def using assms by (rule resolve_many)
  then have f: "snd (resolveProjectIdFromGraphQL E s) = Inl err"
    by simp
  have rd: "projects_read E s ro = ([FindProjectByName s], Inl err)
            \<or> fst (projects_read E s ro) = []"
    using projects_read_resolve_fails [OF f, of ro] r by (simp split: option.splits)
  have ar: "projects_archive E s = ([FindProjectByName s], Inl err)
            \<or> fst (projects_archive E s) = []"
    using projects_archive_resolve_fails [OF f] r by (simp split: option.splits)
  have up: "projects_update E s uo = ([FindProjectByName s], Inl err)
            \<or> fst (projects_update E s uo) = []"
    using projects_update_resolve_fails [OF f, of uo] r by simp
  have nomut: "\<forall>c \<in> set (fst (projects_read E s ro)) \<union> set (fst (projects_update E s uo))
                  \<union> set (fst (projects_archive E s)). \<not> is_mutation c"
    using rd ar up by auto
  have main: "resolveProjectIdFromGraphQL E s = ([FindProjectByName s], Inl err)
         \<and> (FindProjectByName s \<in> set (fst (projects_read E s ro)) \<longrightarrow>
              projects_read E s ro = ([FindProjectByName s], Inl err))
         \<and> (FindProjectByName s \<in> set (fst (projects_update E s uo)) \<longrightarrow>
              projects_update E s uo = ([FindProjectByName s], Inl err))
         \<and> (FindProjectByName s \<in> set (fst (projects_archive E s)) \<longrightarrow>
              projects_archive E s = ([FindProjectByName s], Inl err))"
    using r rd ar up by auto
  show ?thesis
    unfolding Let_def using main nomut unfolding err_def by (rule conjI)
qed

theorem many_matches_ambiguous_witness:
  \<open>\<not> isUuid sample_env ''Roadmap''
   \<and> rawFindProjectByName sample_env ''Roadmap''
       = Inr (Some [\<lparr>node_id = ''p-2'', node_name = ''Roadmap'', node_state = ''started''\<rparr>,
                    \<lparr>node_id = ''p-3'', node_name = ''roadmap'', node_state = ''planned''\<rparr>])
   \<and> projects_archive sample_env ''Roadmap''
       = ([FindProjectByName ''Roadmap''],
          Inl (sample_multipleMatchesError ''project'' ''Roadmap''
                 [''"Roadmap" (started)'', ''"roadmap" (planned)''] ''use the project ID''))
   \<and> projects_update sample_env ''Roadmap'' (no_update_options\<lparr>pu_name := Some ''Plan''\<rparr>)
       = ([FindProjectByName ''Roadmap''],
          Inl (sample_multipleMatchesError ''project'' ''Roadmap''
                 [''"Roadmap" (started)'', ''"roadmap" (planned)''] ''use the project ID''))
   \<and> projects_read sample_env ''Roadmap'' \<lparr>pr_milestonesFirst = None, pr_issuesFirst = None\<rparr>
       = ([FindProjectByName ''Roadmap''],
          Inl (sample_multipleMatchesError ''project'' ''Roadmap''
                 [''"Roadmap" (started)'', ''"roadmap" (planned)''] ''use the project ID''))\<close>
proof -
  let ?ns = "[\<lparr>node_id = ''p-2'', node_name = ''Roadmap'', node_state = ''started''\<rparr>,
              \<lparr>node_id = ''p-3'', node_name = ''roadmap'', node_state = ''planned''\<rparr>]"
  have h1: "\<not> isUuid sample_env ''Roadmap''"
    by (simp add: sample_env_fields isUuid_shape_def)
  have h2: "rawFindProjectByName sample_env ''Roadmap'' = Inr (Some ?ns)"
    by (simp add: sample_env_fields)
  have h3: "length ?ns > 1" by simp
  note inst = many_matches_ambiguous [OF h1 h2 h3,
      where ro = "\<lparr>pr_milestonesFirst = None, pr_issuesFirst = None\<rparr>"
        and uo = "no_update_options\<lparr>pu_name := Some ''Plan''\<rparr>",
      unfolded Let_def, THEN conjunct1]
  have r: \<open>resolveProjectIdFromGraphQL sample_env ''Roadmap''
          = ([FindProjectByName ''Roadmap''],
             Inl (sample_multipleMatchesError ''project'' ''Roadmap''
                 [''"Roadmap" (started)'', ''"roadmap" (planned)''] ''use the project ID''))\<close>
    using inst [THEN conjunct1] by (simp add: sample_env_fields)
  have t1: "FindProjectByName ''Roadmap'' \<in> set (fst (projects_archive sample_env ''Roadmap''))"
    by (simp add: projects_archive_def sample_env_fields r io_bind_def)
  have t2: "FindProjectByName ''Roadmap''
              \<in> set (fst (projects_update sample_env ''Roadmap''
                             (no_update_options\<lparr>pu_name := Some ''Plan''\<rparr>)))"
    by (simp add: projects_update_def sample_env_fields r io_bind_def no_update_options_def
          truthy_str_def)
  have t3: "FindProjectByName ''Roadmap''
              \<in> set (fst (projects_read sample_env ''Roadmap''
                             \<lparr>pr_milestonesFirst = None, pr_issuesFirst = None\<rparr>))"
    by (simp add: projects_read_def sample_env_fields r io_bind_def)
  show ?thesis
    using h1 h2 t1 t2 t3 inst [THEN conjunct2]
    by (simp add: sample_env_fields)
qed

section \<open>The variables of \<^verbatim>\<open>projects update\<close>\<close>

lemma map_of_obj_set: "map_of (obj_set k v fs) = (map_of fs)(k \<mapsto> v)"
  by (induction fs) auto

lemma keys_obj_set: "fst ` set (obj_set k v fs) = insert k (fst ` set fs)"
  by (simp add: dom_map_of_conv_image_fst [symmetric] map_of_obj_set)

lemma distinct_obj_set: "distinct (map fst fs) \<Longrightarrow> distinct (map fst (obj_set k v fs))"
proof (induction fs)
  case Nil
  then show ?case by simp
next
  case (Cons a fs)
  have "set (map fst (obj_set k v fs)) = insert k (fst ` set fs)"
    using keys_obj_set [of k v fs] by simp
  with Cons show ?case by (cases a) auto
qed

lemma case_option_Some_map: "(case x of None \<Rightarrow> None | Some v \<Rightarrow> Some (f v)) = map_option f x"
  by (cases x) simp_all

lemma case_option_Some_id: "(case x of None \<Rightarrow> None | Some v \<Rightarrow> Some v) = x"
  by (cases x) simp_all

lemma map_of_set_if_defined:
  "map_of (set_if_defined k x fs) k' =
     (if k' = k then (case x of None \<Rightarrow> map_of fs k' | Some v \<Rightarrow> Some v)
      else map_of fs k')"
  by (simp add: set_if_defined_def map_of_obj_set split: option.splits)

lemma distinct_set_if_defined:
  "distinct (map fst fs) \<Longrightarrow> distinct (map fst (set_if_defined k x fs))"
  by (simp add: set_if_defined_def distinct_obj_set split: option.splits)

lemma map_of_set_or_clear:
  "map_of (set_or_clear k c x fs) k' =
     (if k' = k then
        (if c then Some JNull
         else (case x of None \<Rightarrow> map_of fs k' | Some v \<Rightarrow> Some (JStr v)))
      else map_of fs k')"
  by (simp add: set_or_clear_def map_of_obj_set map_of_set_if_defined split: option.splits)

lemma distinct_set_or_clear:
  "distinct (map fst fs) \<Longrightarrow> distinct (map fst (set_or_clear k c x fs))"
  by (simp add: set_or_clear_def distinct_obj_set distinct_set_if_defined)

lemma map_of_before_team_keys:
  "map_of (updateVars_before_team projectId options) ''id'' = Some (JStr projectId)"
  "map_of (updateVars_before_team projectId options) ''name''
     = map_option JStr (pu_name options)"
  "map_of (updateVars_before_team projectId options) ''description''
     = map_option JStr (pu_description options)"
  "map_of (updateVars_before_team projectId options) ''icon''
     = map_option JStr (pu_icon options)"
  "map_of (updateVars_before_team projectId options) ''color''
     = map_option JStr (pu_color options)"
  "map_of (updateVars_before_team projectId options) ''priority''
     = map_option (\<lambda>p. num_jv (parseInt p None)) (pu_priority options)"
  "map_of (updateVars_before_team projectId options) ''leadId''
     = (if pu_clearLead options then Some JNull else map_option JStr (pu_lead options))"
  "map_of (updateVars_before_team projectId options) ''startDate''
     = (if pu_clearStartDate options then Some JNull
        else map_option JStr (pu_startDate options))"
  "map_of (updateVars_before_team projectId options) ''targetDate''
     = (if pu_clearTargetDate options then Some JNull
        else map_option JStr (pu_targetDate options))"
  by (simp_all add: updateVars_before_team_def map_of_set_or_clear map_of_set_if_defined
        split: option.splits)

lemma map_of_before_team_other:
  assumes "k \<notin> {''id'', ''name'', ''description'', ''icon'', ''color'', ''priority'',
                 ''leadId'', ''startDate'', ''targetDate''}"
  shows "map_of (updateVars_before_team projectId options) k = None"
  using assms
  by (simp add: updateVars_before_team_def map_of_set_or_clear map_of_set_if_defined)

lemma map_of_before_team:
  "map_of (updateVars_before_team projectId options) k
     = explicit_update_fields projectId None options k"
proof (cases "k \<in> {''id'', ''name'', ''description'', ''icon'', ''color'', ''priority'',
                     ''leadId'', ''startDate'', ''targetDate''}")
  case True
  then show ?thesis
    by (auto simp add: map_of_before_team_keys explicit_update_fields_def)
next
  case False
  then show ?thesis
    by (simp add: map_of_before_team_other explicit_update_fields_def)
qed

lemma distinct_before_team: "distinct (map fst (updateVars_before_team projectId options))"
  by (simp add: updateVars_before_team_def distinct_set_or_clear distinct_set_if_defined)


lemma in_trace_bind:
  "c \<in> set (fst (io_bind m f)) \<longleftrightarrow>
     c \<in> set (fst m) \<or> (\<exists>a. snd m = Inr a \<and> c \<in> set (fst (f a)))"
  by (auto simp add: fst_io_bind split: sum.splits)

lemma project_mutation_trace:
  "fst (io_bind (io_call c resp)
         (\<lambda>result. case result of
              None \<Rightarrow> io_throw e1
            | Some p \<Rightarrow> if \<not> pp_success p then io_throw e2 else io_return (g p))) = [c]"
  by (simp add: fst_io_bind split: sum.splits option.splits)

lemma projects_update_issued:
  assumes "UpdateProject vars \<in> set (fst (projects_update E s options))"
  shows "\<exists>projectId. snd (resolveProjectIdFromGraphQL E s) = Inr projectId
           \<and> (case pu_team options of
                 None \<Rightarrow> vars = updateVars_before_team projectId options
               | Some t \<Rightarrow> (\<exists>teamId. resolveTeamId E t = Inr teamId
                    \<and> vars = obj_set ''teamIds'' (JArr [JStr teamId])
                               (updateVars_before_team projectId options)))"
proof -
  have nf: "UpdateProject vars \<notin> set (fst (resolveProjectIdFromGraphQL E s))"
    by (simp add: resolve_trace)
  from assms obtain projectId where
    r: "snd (resolveProjectIdFromGraphQL E s) = Inr projectId"
    and t: "UpdateProject vars \<in> set (fst
       (io_bind
          (case pu_team options of
             None \<Rightarrow> io_return (updateVars_before_team projectId options)
           | Some team \<Rightarrow>
               io_bind (io_call (ResolveTeamId team) (resolveTeamId E team))
                 (\<lambda>teamId. io_return (obj_set ''teamIds'' (JArr [JStr teamId])
                     (updateVars_before_team projectId options))))
          (\<lambda>updateVars.
             io_bind (io_call (UpdateProject updateVars) (rawUpdateProject E updateVars))
               (\<lambda>result.
                  case result of
                    None \<Rightarrow> io_throw (Error ''Failed to update project'')
                  | Some projectUpdate \<Rightarrow>
                      if \<not> pp_success projectUpdate then
                        io_throw (Error ''Failed to update project'')
                      else io_return (transformProject (pp_project projectUpdate))))))"
    unfolding projects_update_def Let_def updateVars_before_team_def [symmetric]
    using nf by (auto simp add: in_trace_bind split: if_splits)
  show ?thesis
  proof (cases "pu_team options")
    case None
    with t have "vars = updateVars_before_team projectId options"
      by (simp add: project_mutation_trace)
    with r None show ?thesis by simp
  next
    case (Some team)
    show ?thesis
    proof (cases "resolveTeamId E team")
      case (Inl e)
      with t Some show ?thesis by (simp add: io_bind_def)
    next
      case (Inr teamId)
      with t Some have "vars = obj_set ''teamIds'' (JArr [JStr teamId])
                               (updateVars_before_team projectId options)"
        by (simp add: in_trace_bind project_mutation_trace)
      with r Some Inr show ?thesis by simp
    qed
  qed
qed


lemma explicit_update_fields_team:
  "explicit_update_fields projectId (Some teamId) options
     = (explicit_update_fields projectId None options)(''teamIds'' \<mapsto> JArr [JStr teamId])"
  by (rule ext) (simp add: explicit_update_fields_def)

text \<open>
  Every update mutation that occurs in a trace of \<^verbatim>\<open>projects update\<close> carries exactly
  the explicitly set fields.
\<close>

lemma sent_update_variables:
  assumes "UpdateProject vars \<in> set (fst (projects_update E s options))"
  shows "\<exists>projectId teamId.
           snd (resolveProjectIdFromGraphQL E s) = Inr projectId
         \<and> map_option (resolveTeamId E) (pu_team options) = map_option Inr teamId
         \<and> map_of vars = explicit_update_fields projectId teamId options
         \<and> fst ` set vars = dom (explicit_update_fields projectId teamId options)
         \<and> distinct (map fst vars)
         \<and> (pu_clearLead options \<longrightarrow> map_of vars ''leadId'' = Some JNull)
         \<and> (pu_clearStartDate options \<longrightarrow> map_of vars ''startDate'' = Some JNull)
         \<and> (pu_clearTargetDate options \<longrightarrow> map_of vars ''targetDate'' = Some JNull)"
proof -
  from projects_update_issued [OF assms] obtain projectId where
    r: "snd (resolveProjectIdFromGraphQL E s) = Inr projectId"
    and v: "case pu_team options of
              None \<Rightarrow> vars = updateVars_before_team projectId options
            | Some t \<Rightarrow> (\<exists>teamId. resolveTeamId E t = Inr teamId
                 \<and> vars = obj_set ''teamIds'' (JArr [JStr teamId])
                            (updateVars_before_team projectId options))"
    by blast
  have "\<exists>teamId. map_option (resolveTeamId E) (pu_team options) = map_option Inr teamId
          \<and> map_of vars = explicit_update_fields projectId teamId options
          \<and> distinct (map fst vars)"
  proof (cases "pu_team options")
    case None
    with v have "vars = updateVars_before_team projectId options" by simp
    then have "map_of vars = explicit_update_fields projectId None options"
      and "distinct (map fst vars)"
      by (auto simp add: map_of_before_team distinct_before_team)
    with None show ?thesis by (intro exI [of _ None]) simp
  next
    case (Some t)
    with v obtain teamId where
      t: "resolveTeamId E t = Inr teamId"
      and e: "vars = obj_set ''teamIds'' (JArr [JStr teamId])
                       (updateVars_before_team projectId options)"
      by auto
    have "map_of (updateVars_before_team projectId options)
            = explicit_update_fields projectId None options"
      by (rule ext) (rule map_of_before_team)
    with e have "map_of vars = explicit_update_fields projectId (Some teamId) options"
      by (simp add: map_of_obj_set explicit_update_fields_team)
    moreover from e have "distinct (map fst vars)"
      by (simp add: distinct_obj_set distinct_before_team)
    ultimately show ?thesis using Some t by (intro exI [of _ "Some teamId"]) simp
  qed
  then obtain teamId where
    t: "map_option (resolveTeamId E) (pu_team options) = map_option Inr teamId"
    and m: "map_of vars = explicit_update_fields projectId teamId options"
    and d: "distinct (map fst vars)"
    by blast
  from m have k: "fst ` set vars = dom (explicit_update_fields projectId teamId options)"
    by (simp add: dom_map_of_conv_image_fst [symmetric])
  from m have c: "(pu_clearLead options \<longrightarrow> map_of vars ''leadId'' = Some JNull)
         \<and> (pu_clearStartDate options \<longrightarrow> map_of vars ''startDate'' = Some JNull)
         \<and> (pu_clearTargetDate options \<longrightarrow> map_of vars ''targetDate'' = Some JNull)"
    by (simp add: explicit_update_fields_def)
  from r t m k d c show ?thesis by blast
qed

lemma roundToDouble_small: "m < 9007199254740992 \<Longrightarrow> roundToDouble m = m"
  by (simp add: roundToDouble_def droppedBits.simps [of m])

lemma parseInt_2: "parseInt ''2'' None = Some 2"
  by (simp add: parseInt_def isWhiteSpace_def isDigitIn_def digitValue_def digitsValue_def
        roundToDouble_small)


lemma resolve_Website:
  "resolveProjectIdFromGraphQL sample_env ''Website'' = ([FindProjectByName ''Website''], Inr ''p-1'')"
  by (simp add: resolveProjectIdFromGraphQL_def sample_env_fields isUuid_shape_def)

text \<open>
  When the flags do not conflict, the services can be built, the project resolves and
  the team, if given, resolves, the command does send the update mutation, as its last
  call, with the object built by its assignments.
\<close>

lemma projects_update_sends:
  assumes "auth E = None"
    and "\<not> (truthy_str (pu_lead options) \<and> pu_clearLead options)"
    and "\<not> (truthy_str (pu_startDate options) \<and> pu_clearStartDate options)"
    and "\<not> (truthy_str (pu_targetDate options) \<and> pu_clearTargetDate options)"
    and "resolveProjectIdFromGraphQL E s = (tr, Inr projectId)"
    and "map_option (resolveTeamId E) (pu_team options) = map_option Inr teamId"
  shows "fst (projects_update E s options)
           = tr @ (case pu_team options of None \<Rightarrow> [] | Some t \<Rightarrow> [ResolveTeamId t])
             @ [UpdateProject
                  (case teamId of
                     None \<Rightarrow> updateVars_before_team projectId options
                   | Some i \<Rightarrow> obj_set ''teamIds'' (JArr [JStr i])
                                (updateVars_before_team projectId options))]"
proof (cases "pu_team options")
  case None
  with assms(6) have "teamId = None" by simp
  with None assms(1-5) show ?thesis
    unfolding projects_update_def Let_def updateVars_before_team_def [symmetric]
    by (simp add: project_mutation_trace io_bind_pair_Inr)
next
  case (Some t)
  with assms(6) obtain i where i: "teamId = Some i" "resolveTeamId E t = Inr i"
    by (cases teamId) auto
  with Some assms(1-5) show ?thesis
    unfolding projects_update_def Let_def updateVars_before_team_def [symmetric]
    by (simp add: project_mutation_trace io_bind_pair_Inr)
qed

text \<open>
  Claim C1. An invocation of \<^verbatim>\<open>projects update\<close> whose flags do not conflict, whose
  services can be built, whose project resolves and whose team, if given, resolves,
  sends the update mutation as its last call, and the variables of that mutation are,
  as a finite map, exactly the explicitly set fields: the resolved project id, each
  option the caller gave, an explicit null for each clear flag, and the resolved team
  when \<^verbatim>\<open>--team\<close> was given. No key occurs twice, the keys of the object are exactly
  the fields that were set, and a cleared field reads \<open>Some JNull\<close>, which differs from
  the \<open>None\<close> of an absent field. Moreover every update mutation that any invocation
  sends, whatever its inputs, carries exactly such variables.
\<close>

theorem update_variables_exactly_explicit_fields:
  "(auth E = None
      \<and> \<not> (truthy_str (pu_lead options) \<and> pu_clearLead options)
      \<and> \<not> (truthy_str (pu_startDate options) \<and> pu_clearStartDate options)
      \<and> \<not> (truthy_str (pu_targetDate options) \<and> pu_clearTargetDate options)
      \<and> resolveProjectIdFromGraphQL E s = (tr, Inr projectId)
      \<and> map_option (resolveTeamId E) (pu_team options) = map_option Inr teamId
    \<longrightarrow> (\<exists>vars.
           fst (projects_update E s options)
             = tr @ (case pu_team options of None \<Rightarrow> [] | Some t \<Rightarrow> [ResolveTeamId t])
               @ [UpdateProject vars]
         \<and> map_of vars = explicit_update_fields projectId teamId options
         \<and> fst ` set vars = dom (explicit_update_fields projectId teamId options)
         \<and> distinct (map fst vars)
         \<and> (pu_clearLead options \<longrightarrow> map_of vars ''leadId'' = Some JNull)
         \<and> (pu_clearStartDate options \<longrightarrow> map_of vars ''startDate'' = Some JNull)
         \<and> (pu_clearTargetDate options \<longrightarrow> map_of vars ''targetDate'' = Some JNull)))
   \<and> (\<forall>vars. UpdateProject vars \<in> set (fst (projects_update E s options)) \<longrightarrow>
         (\<exists>projectId teamId.
             snd (resolveProjectIdFromGraphQL E s) = Inr projectId
           \<and> map_option (resolveTeamId E) (pu_team options) = map_option Inr teamId
           \<and> map_of vars = explicit_update_fields projectId teamId options
           \<and> fst ` set vars = dom (explicit_update_fields projectId teamId options)
           \<and> distinct (map fst vars)
           \<and> (pu_clearLead options \<longrightarrow> map_of vars ''leadId'' = Some JNull)
           \<and> (pu_clearStartDate options \<longrightarrow> map_of vars ''startDate'' = Some JNull)
           \<and> (pu_clearTargetDate options \<longrightarrow> map_of vars ''targetDate'' = Some JNull)))"
proof (intro conjI impI allI)
  fix vars
  assume "UpdateProject vars \<in> set (fst (projects_update E s options))"
  then show "\<exists>projectId teamId.
             snd (resolveProjectIdFromGraphQL E s) = Inr projectId
           \<and> map_option (resolveTeamId E) (pu_team options) = map_option Inr teamId
           \<and> map_of vars = explicit_update_fields projectId teamId options
           \<and> fst ` set vars = dom (explicit_update_fields projectId teamId options)
           \<and> distinct (map fst vars)
           \<and> (pu_clearLead options \<longrightarrow> map_of vars ''leadId'' = Some JNull)
           \<and> (pu_clearStartDate options \<longrightarrow> map_of vars ''startDate'' = Some JNull)
           \<and> (pu_clearTargetDate options \<longrightarrow> map_of vars ''targetDate'' = Some JNull)"
    by (rule sent_update_variables)
next
  assume p: "auth E = None
      \<and> \<not> (truthy_str (pu_lead options) \<and> pu_clearLead options)
      \<and> \<not> (truthy_str (pu_startDate options) \<and> pu_clearStartDate options)
      \<and> \<not> (truthy_str (pu_targetDate options) \<and> pu_clearTargetDate options)
      \<and> resolveProjectIdFromGraphQL E s = (tr, Inr projectId)
      \<and> map_option (resolveTeamId E) (pu_team options) = map_option Inr teamId"
  define vars where
    "vars = (case teamId of
               None \<Rightarrow> updateVars_before_team projectId options
             | Some i \<Rightarrow> obj_set ''teamIds'' (JArr [JStr i])
                          (updateVars_before_team projectId options))"
  have sent: "fst (projects_update E s options)
             = tr @ (case pu_team options of None \<Rightarrow> [] | Some t \<Rightarrow> [ResolveTeamId t])
               @ [UpdateProject vars]"
    unfolding vars_def using p by (intro projects_update_sends) simp_all
  have b: "map_of (updateVars_before_team projectId options)
            = explicit_update_fields projectId None options"
    by (rule ext) (rule map_of_before_team)
  have m: "map_of vars = explicit_update_fields projectId teamId options"
    by (cases teamId) (simp_all add: vars_def b map_of_obj_set explicit_update_fields_team)
  have d: "distinct (map fst vars)"
    by (cases teamId) (simp_all add: vars_def distinct_obj_set distinct_before_team)
  from m have k: "fst ` set vars = dom (explicit_update_fields projectId teamId options)"
    by (simp add: dom_map_of_conv_image_fst [symmetric])
  from m have c: "(pu_clearLead options \<longrightarrow> map_of vars ''leadId'' = Some JNull)
         \<and> (pu_clearStartDate options \<longrightarrow> map_of vars ''startDate'' = Some JNull)
         \<and> (pu_clearTargetDate options \<longrightarrow> map_of vars ''targetDate'' = Some JNull)"
    by (simp add: explicit_update_fields_def)
  from sent m k d c show "\<exists>vars.
           fst (projects_update E s options)
             = tr @ (case pu_team options of None \<Rightarrow> [] | Some t \<Rightarrow> [ResolveTeamId t])
               @ [UpdateProject vars]
         \<and> map_of vars = explicit_update_fields projectId teamId options
         \<and> fst ` set vars = dom (explicit_update_fields projectId teamId options)
         \<and> distinct (map fst vars)
         \<and> (pu_clearLead options \<longrightarrow> map_of vars ''leadId'' = Some JNull)
         \<and> (pu_clearStartDate options \<longrightarrow> map_of vars ''startDate'' = Some JNull)
         \<and> (pu_clearTargetDate options \<longrightarrow> map_of vars ''targetDate'' = Some JNull)"
    by blast
qed

theorem update_variables_exactly_explicit_fields_witness:
  "(let options = no_update_options\<lparr>pu_name := Some ''New'', pu_description := Some ''Text'',
                    pu_clearLead := True, pu_priority := Some ''2'',
                    pu_clearStartDate := True, pu_clearTargetDate := True,
                    pu_team := Some ''ENG''\<rparr>;
        vars = [(''id'', JStr ''p-1''), (''name'', JStr ''New''),
                (''description'', JStr ''Text''), (''priority'', JNum 2),
                (''leadId'', JNull), (''startDate'', JNull), (''targetDate'', JNull),
                (''teamIds'', JArr [JStr ''team-ENG''])]
    in auth sample_env = None
     \<and> resolveProjectIdFromGraphQL sample_env ''Website''
         = ([FindProjectByName ''Website''], Inr ''p-1'')
     \<and> resolveTeamId sample_env ''ENG'' = Inr ''team-ENG''
     \<and> fst (projects_update sample_env ''Website'' options)
         = [FindProjectByName ''Website'', ResolveTeamId ''ENG'', UpdateProject vars]
     \<and> map_of vars = explicit_update_fields ''p-1'' (Some ''team-ENG'') options
     \<and> map_of vars ''leadId'' = Some JNull
     \<and> map_of vars ''startDate'' = Some JNull
     \<and> map_of vars ''targetDate'' = Some JNull
     \<and> map_of vars ''description'' = Some (JStr ''Text'')
     \<and> map_of vars ''icon'' = None)"
proof -
  define options where
    "options = no_update_options\<lparr>pu_name := Some ''New'', pu_description := Some ''Text'',
                 pu_clearLead := True, pu_priority := Some ''2'',
                 pu_clearStartDate := True, pu_clearTargetDate := True,
                 pu_team := Some ''ENG''\<rparr>"
  define vars where
    "vars = [(''id'', JStr ''p-1''), (''name'', JStr ''New''),
             (''description'', JStr ''Text''), (''priority'', JNum 2),
             (''leadId'', JNull), (''startDate'', JNull), (''targetDate'', JNull),
             (''teamIds'', JArr [JStr ''team-ENG''])]"
  have h1: "auth sample_env = None" by (simp add: sample_env_fields)
  have h2: "\<not> (truthy_str (pu_lead options) \<and> pu_clearLead options)"
    and h3: "\<not> (truthy_str (pu_startDate options) \<and> pu_clearStartDate options)"
    and h4: "\<not> (truthy_str (pu_targetDate options) \<and> pu_clearTargetDate options)"
    by (simp_all add: options_def no_update_options_def truthy_str_def)
  have h5: "resolveProjectIdFromGraphQL sample_env ''Website''
              = ([FindProjectByName ''Website''], Inr ''p-1'')"
    by (rule resolve_Website)
  have h6: "map_option (resolveTeamId sample_env) (pu_team options)
              = map_option Inr (Some ''team-ENG'')"
    by (simp add: options_def sample_env_fields)
  have tm: "pu_team options = Some ''ENG''" by (simp add: options_def)
  from update_variables_exactly_explicit_fields
         [of sample_env options "''Website''" "[FindProjectByName ''Website'']" "''p-1''"
            "Some ''team-ENG''", THEN conjunct1, rule_format]
       h1 h2 h3 h4 h5 h6
  obtain sent where
    tr: "fst (projects_update sample_env ''Website'' options)
           = [FindProjectByName ''Website''] @ [ResolveTeamId ''ENG''] @ [UpdateProject sent]"
    and m: "map_of sent = explicit_update_fields ''p-1'' (Some ''team-ENG'') options"
    and c1: "pu_clearLead options \<longrightarrow> map_of sent ''leadId'' = Some JNull"
    and c2: "pu_clearStartDate options \<longrightarrow> map_of sent ''startDate'' = Some JNull"
    and c3: "pu_clearTargetDate options \<longrightarrow> map_of sent ''targetDate'' = Some JNull"
    by (auto simp add: tm)
  have run: "fst (projects_update sample_env ''Website'' options)
              = [FindProjectByName ''Website'', ResolveTeamId ''ENG'', UpdateProject vars]"
    by (simp add: projects_update_def options_def vars_def no_update_options_def truthy_str_def
          sample_env_fields resolve_Website set_if_defined_def set_or_clear_def parseInt_2
          num_jv_def io_bind_def io_call_def io_return_def io_throw_def)
  with tr have e: "sent = vars" by simp
  have o: "pu_clearLead options \<and> pu_clearStartDate options \<and> pu_clearTargetDate options
           \<and> pu_description options = Some ''Text'' \<and> pu_icon options = None"
    by (simp add: options_def no_update_options_def)
  with c1 c2 c3 e have l: "map_of vars ''leadId'' = Some JNull
      \<and> map_of vars ''startDate'' = Some JNull \<and> map_of vars ''targetDate'' = Some JNull"
    by simp
  from m e o have s: "map_of vars ''description'' = Some (JStr ''Text'')
      \<and> map_of vars ''icon'' = None"
    by (simp add: explicit_update_fields_def)
  from h1 h5 run m e l s show ?thesis
    unfolding Let_def options_def [symmetric] vars_def [symmetric]
    by (simp add: sample_env_fields)
qed

section \<open>The response transformer\<close>


lemma transformProject_falsy: "\<not> js_truthy project \<Longrightarrow> transformProject project = project"
  by (simp add: transformProject_def)







section \<open>Documents and attachments\<close>

declare io_bind_pair_Inr [simp] io_bind_pair_Inl [simp]
declare io_catch_pair_Inl [simp] io_catch_pair_Inr [simp]

lemma sublist_skip_left: "sublist x ys \<Longrightarrow> sublist x (zs @ ys)"
proof -
  assume "sublist x ys"
  then obtain ps ss where "ys = ps @ x @ ss" by (auto simp add: sublist_def)
  then have "zs @ ys = (zs @ ps) @ x @ ss" by simp
  then show ?thesis unfolding sublist_def by blast
qed

lemma resolve_if_given_trace:
  "fst (resolve_if_given c resolve so) = (if truthy_str so then [c (the so)] else [])"
  by (simp add: resolve_if_given_def fst_io_bind split: sum.splits)

lemma createDocument_trace: "fst (createDocument E input) = [DocumentCreate input]"
  by (simp add: createDocument_def fst_io_bind split: sum.splits)

lemma createAttachment_trace: "fst (createAttachment E input) = [AttachmentCreate input]"
  by (simp add: createAttachment_def fst_io_bind split: sum.splits)

text \<open>
  Claim C9. In \<^verbatim>\<open>documents create --attach-to\<close>, when the document has been created and
  the creation of the attachment then fails, the command makes no further call (the
  document is not deleted again) and fails with an error whose message holds the id of
  the created document, the issue identifier as the user gave it, and the command that
  retries the attachment with that issue, the document's URL and its title.
\<close>

theorem attach_failure_keeps_document:
  assumes "auth E = None"
    and "resolve_if_given ResolveProjectId (resolveProjectId E) (dco_project options)
           = (tp, Inr projectId)"
    and "resolve_if_given ResolveTeamId (resolveTeamId E) (dco_team options)
           = (tt, Inr teamId)"
    and "createDocument E
           \<lparr>dci_title = dco_title options, dci_content = dco_content options,
            dci_projectId = projectId, dci_teamId = teamId,
            dci_icon = dco_icon options, dci_color = dco_color options\<rparr>
           = (td, Inr document)"
    and "dco_attachTo options = Some issue" and "issue \<noteq> []"
    and "resolveIssueId E issue = Inr issueId"
    and "createAttachment E
           \<lparr>aci_issueId = issueId, aci_url = doc_url document, aci_title = doc_title document,
            aci_subtitle = None, aci_commentBody = None, aci_iconUrl = None\<rparr>
           = (ta, Inl attachError)"
  shows \<open>(let retry = ''linearis attachments create --issue "'' @ issue
                       @ ''" --url "'' @ doc_url document
                       @ ''" --title "'' @ doc_title document @ ''"'';
              message = ''Document created ('' @ doc_id document
                       @ '') but failed to attach to issue "'' @ issue
                       @ ''": '' @ errorMessage attachError @ ''. ''
                       @ ''To retry attachment: '' @ retry
          in documents_create E options
               = (tp @ tt @ td @ [ResolveIssueId issue] @ ta, Inl (Error message))
           \<and> sublist (doc_id document) message
           \<and> sublist issue message
           \<and> sublist retry message)
         \<and> (\<forall>ident. DocumentDelete ident \<notin> set (fst (documents_create E options)))\<close>
proof -
  define retry where
    \<open>retry = ''linearis attachments create --issue "'' @ issue
                       @ ''" --url "'' @ doc_url document
                       @ ''" --title "'' @ doc_title document @ ''"''\<close>
  define message where
    \<open>message = ''Document created ('' @ doc_id document
                       @ '') but failed to attach to issue "'' @ issue
                       @ ''": '' @ errorMessage attachError @ ''. ''
                       @ ''To retry attachment: '' @ retry\<close>
  have run: "documents_create E options
               = (tp @ tt @ td @ [ResolveIssueId issue] @ ta, Inl (Error message))"
    using assms
    by (simp add: documents_create_def truthy_str_def tmpl_opt_def message_def retry_def)
  have tp: "\<forall>ident. DocumentDelete ident \<notin> set tp"
    using resolve_if_given_trace [of ResolveProjectId "resolveProjectId E" "dco_project options"]
      assms(2) by (auto split: if_splits)
  have tt: "\<forall>ident. DocumentDelete ident \<notin> set tt"
    using resolve_if_given_trace [of ResolveTeamId "resolveTeamId E" "dco_team options"]
      assms(3) by (auto split: if_splits)
  have "fst (createDocument E
           \<lparr>dci_title = dco_title options, dci_content = dco_content options,
            dci_projectId = projectId, dci_teamId = teamId,
            dci_icon = dco_icon options, dci_color = dco_color options\<rparr>) = td"
    using assms(4) by simp
  then have "\<exists>input. td = [DocumentCreate input]"
    by (auto simp add: createDocument_trace)
  then have td: "\<forall>ident. DocumentDelete ident \<notin> set td" by auto
  have "fst (createAttachment E
           \<lparr>aci_issueId = issueId, aci_url = doc_url document, aci_title = doc_title document,
            aci_subtitle = None, aci_commentBody = None, aci_iconUrl = None\<rparr>) = ta"
    using assms(8) by simp
  then have "\<exists>input. ta = [AttachmentCreate input]"
    by (auto simp add: createAttachment_trace)
  then have ta: "\<forall>ident. DocumentDelete ident \<notin> set ta" by auto
  have s1: "sublist (doc_id document) message"
    unfolding message_def by (rule sublist_appendI)
  have s2: "sublist issue message"
    unfolding message_def
    by (rule sublist_skip_left, rule sublist_skip_left, rule sublist_skip_left,
        rule sublist_append_rightI)
  have s3: "sublist retry message"
    unfolding message_def
    by (rule sublist_skip_left, rule sublist_skip_left, rule sublist_skip_left,
        rule sublist_skip_left, rule sublist_skip_left, rule sublist_skip_left,
        rule sublist_skip_left, rule sublist_skip_left, rule sublist_order.order_refl)
  from run tp tt td ta s1 s2 s3 show ?thesis
    unfolding Let_def retry_def [symmetric] message_def [symmetric]
    by simp
qed


theorem attach_failure_keeps_document_witness:
  \<open>documents_create sample_env
      \<lparr>dco_title = ''Design notes'', dco_content = None, dco_project = None,
       dco_team = Some ''ENG'', dco_icon = None, dco_color = None,
       dco_attachTo = Some ''ENG-1''\<rparr>
   = ([ResolveTeamId ''ENG'',
       DocumentCreate \<lparr>dci_title = ''Design notes'', dci_content = None, dci_projectId = None,
                       dci_teamId = Some ''team-ENG'', dci_icon = None, dci_color = None\<rparr>,
       ResolveIssueId ''ENG-1'',
       AttachmentCreate \<lparr>aci_issueId = ''issue-ENG-1'',
                         aci_url = ''https://linear.app/acme/document/design-notes-abc123'',
                         aci_title = ''Design notes'', aci_subtitle = None,
                         aci_commentBody = None, aci_iconUrl = None\<rparr>],
      Inl (Error (''Document created (doc-abc123) but failed to attach to issue "ENG-1": ''
                  @ ''Failed to create attachment on issue issue-ENG-1 for URL ''
                  @ ''"https://linear.app/acme/document/design-notes-abc123". ''
                  @ ''To retry attachment: linearis attachments create --issue "ENG-1" ''
                  @ ''--url "https://linear.app/acme/document/design-notes-abc123" ''
                  @ ''--title "Design notes"'')))\<close>
proof -
  define options where
    "options = \<lparr>dco_title = ''Design notes'', dco_content = None, dco_project = None,
       dco_team = Some ''ENG'', dco_icon = None, dco_color = None,
       dco_attachTo = Some ''ENG-1''\<rparr>"
  have h1: "auth sample_env = None" by (simp add: sample_env_fields)
  have h2: "resolve_if_given ResolveProjectId (resolveProjectId sample_env) (dco_project options)
              = ([], Inr None)"
    by (simp add: options_def resolve_if_given_def truthy_str_def io_return_def)
  have h3: "resolve_if_given ResolveTeamId (resolveTeamId sample_env) (dco_team options)
              = ([ResolveTeamId ''ENG''], Inr (Some ''team-ENG''))"
    by (simp add: options_def resolve_if_given_def truthy_str_def sample_env_fields)
  have h4: "createDocument sample_env
           \<lparr>dci_title = dco_title options, dci_content = dco_content options,
            dci_projectId = None, dci_teamId = Some ''team-ENG'',
            dci_icon = dco_icon options, dci_color = dco_color options\<rparr>
           = ([DocumentCreate \<lparr>dci_title = ''Design notes'', dci_content = None,
                 dci_projectId = None, dci_teamId = Some ''team-ENG'', dci_icon = None,
                 dci_color = None\<rparr>],
              Inr (sample_document ''abc123''))"
    by (simp add: options_def createDocument_def sample_env_fields io_return_def)
  have h5: "dco_attachTo options = Some ''ENG-1''" by (simp add: options_def)
  have h6: "''ENG-1'' \<noteq> []" by simp
  have h7: "resolveIssueId sample_env ''ENG-1'' = Inr ''issue-ENG-1''"
    by (simp add: sample_env_fields)
  have h8: \<open>createAttachment sample_env
           \<lparr>aci_issueId = ''issue-ENG-1'', aci_url = doc_url (sample_document ''abc123''),
            aci_title = doc_title (sample_document ''abc123''),
            aci_subtitle = None, aci_commentBody = None, aci_iconUrl = None\<rparr>
           = ([AttachmentCreate \<lparr>aci_issueId = ''issue-ENG-1'',
                 aci_url = ''https://linear.app/acme/document/design-notes-abc123'',
                 aci_title = ''Design notes'', aci_subtitle = None,
                 aci_commentBody = None, aci_iconUrl = None\<rparr>],
              Inl (Error (''Failed to create attachment on issue issue-ENG-1 for URL ''
                  @ ''"https://linear.app/acme/document/design-notes-abc123"'')))\<close>
    by (simp add: createAttachment_def sample_env_fields sample_document_def io_throw_def)
  show ?thesis
    using attach_failure_keeps_document [OF h1 h2 h3 h4 h5 h6 h7 h8]
    unfolding options_def [symmetric]
    by (simp add: Let_def errorMessage_def sample_document_def)
qed

section \<open>Listing the documents of an issue\<close>

lemma new_Set_step:
  assumes "distinct acc"
  shows "distinct (foldl (\<lambda>s x. if x \<in> set s then s else s @ [x]) acc xs)
       \<and> set (foldl (\<lambda>s x. if x \<in> set s then s else s @ [x]) acc xs) = set acc \<union> set xs"
  using assms by (induction xs arbitrary: acc) auto

lemma distinct_new_Set: "distinct (new_Set xs)"
  using new_Set_step [of "[]" xs] by (simp add: new_Set_def)

lemma set_new_Set: "set (new_Set xs) = set xs"
  using new_Set_step [of "[]" xs] by (simp add: new_Set_def)

lemma set_extracted:
  "set (map the (filter (\<lambda>ident. ident \<noteq> None) (map f xs))) = {s. \<exists>x \<in> set xs. f x = Some s}"
  by (induction xs) auto

lemma listAttachments_ok:
  "rawListAttachments E issueId = Inr (Some nodes) \<Longrightarrow>
     listAttachments E issueId = ([ListAttachments issueId], Inr nodes)"
  by (simp add: listAttachments_def io_return_def)

text \<open>
  Claim C10. In \<^verbatim>\<open>documents list --issue\<close>, once the limit is valid and the attachments
  of the issue have been fetched, the slug ids handed to the document lookup are
  duplicate-free and are exactly the ids that some attachment URL yields. If there is
  none, the command returns the empty list after the attachment query, without any
  document query. Otherwise it makes one lookup with that duplicate-free list and
  returns its answer; so, for a lookup that answers a duplicate-free request without
  repeating a document, no document occurs twice in the output.
\<close>

theorem issue_documents_deduplicated:
  assumes "\<not> truthy_str (dlo_project options)"
    and "dlo_issue options = Some issue" and "issue \<noteq> []"
    and "auth E = None"
    and "parseInt (if truthy_str (dlo_limit options) then the (dlo_limit options) else ''50'')
           (Some 10) = Some limit"
    and "1 \<le> limit"
    and "resolveIssueId E issue = Inr issueId"
    and "rawListAttachments E issueId = Inr (Some attachments)"
  shows "(let documentSlugIds =
                new_Set (map the (filter (\<lambda>ident. ident \<noteq> None)
                           (map (\<lambda>att. extractDocumentIdFromUrl E (att_url att)) attachments)))
          in distinct documentSlugIds
           \<and> set documentSlugIds
               = {s. \<exists>att \<in> set attachments. extractDocumentIdFromUrl E (att_url att) = Some s}
           \<and> (documentSlugIds = [] \<longrightarrow>
                 documents_list E options
                   = ([ResolveIssueId issue, ListAttachments issueId], Inr []))
           \<and> (documentSlugIds \<noteq> [] \<longrightarrow>
                 documents_list E options
                   = ([ResolveIssueId issue, ListAttachments issueId,
                       ListDocumentsBySlugIds documentSlugIds limit],
                      listDocumentsBySlugIds E documentSlugIds limit)))
       \<and> ((\<forall>ids docs. distinct ids \<and> listDocumentsBySlugIds E ids limit = Inr docs
              \<longrightarrow> distinct docs)
            \<longrightarrow> (\<forall>docs. snd (documents_list E options) = Inr docs \<longrightarrow> distinct docs))"
proof -
  define documentSlugIds where
    "documentSlugIds =
       new_Set (map the (filter (\<lambda>ident. ident \<noteq> None)
                  (map (\<lambda>att. extractDocumentIdFromUrl E (att_url att)) attachments)))"
  have d: "distinct documentSlugIds"
    by (simp add: documentSlugIds_def distinct_new_Set)
  have s: "set documentSlugIds
             = {s. \<exists>att \<in> set attachments. extractDocumentIdFromUrl E (att_url att) = Some s}"
    by (simp only: documentSlugIds_def set_new_Set set_extracted)
  have la: "listAttachments E issueId = ([ListAttachments issueId], Inr attachments)"
    using assms(8) by (rule listAttachments_ok)
  have run: "documents_list E options =
      (if documentSlugIds = [] then ([ResolveIssueId issue, ListAttachments issueId], Inr [])
       else ([ResolveIssueId issue, ListAttachments issueId,
              ListDocumentsBySlugIds documentSlugIds limit],
             listDocumentsBySlugIds E documentSlugIds limit))"
    using assms(1-7) la
    by (simp add: documents_list_def Let_def truthy_str_def io_return_def io_call_def
          documentSlugIds_def [symmetric] del: not_None_eq)
  have e: "documentSlugIds = [] \<longrightarrow>
             documents_list E options
               = ([ResolveIssueId issue, ListAttachments issueId], Inr [])"
    using run by simp
  have n: "documentSlugIds \<noteq> [] \<longrightarrow>
             documents_list E options
               = ([ResolveIssueId issue, ListAttachments issueId,
                   ListDocumentsBySlugIds documentSlugIds limit],
                  listDocumentsBySlugIds E documentSlugIds limit)"
    using run by simp
  have c: "(\<forall>ids docs. distinct ids \<and> listDocumentsBySlugIds E ids limit = Inr docs
              \<longrightarrow> distinct docs)
            \<longrightarrow> (\<forall>docs. snd (documents_list E options) = Inr docs \<longrightarrow> distinct docs)"
  proof (intro impI allI)
    fix docs
    assume k: "\<forall>ids docs. distinct ids \<and> listDocumentsBySlugIds E ids limit = Inr docs
                 \<longrightarrow> distinct docs"
      and r: "snd (documents_list E options) = Inr docs"
    show "distinct docs"
    proof (cases "documentSlugIds = []")
      case True
      with run r show ?thesis by simp
    next
      case False
      with run r have "listDocumentsBySlugIds E documentSlugIds limit = Inr docs" by simp
      with k d show ?thesis by blast
    qed
  qed
  from d s e n c show ?thesis
    unfolding Let_def documentSlugIds_def [symmetric] by (intro conjI)
qed


lemma parseInt_50: "parseInt ''50'' (Some 10) = Some 50"
  by (simp add: parseInt_def isWhiteSpace_def isDigitIn_def digitValue_def digitsValue_def
        roundToDouble_small)

lemma sample_extracted:
  "map (\<lambda>att. extractDocumentIdFromUrl sample_env (att_url att)) sample_attachments
     = [Some ''abc123'', None, None, Some ''def456'', Some ''abc123'']"
  by code_simp

lemma sample_lookup_distinct:
  assumes "distinct ids" and "listDocumentsBySlugIds sample_env ids lim = Inr docs"
  shows "distinct docs"
proof -
  have "inj_on sample_document (set ids)"
    by (rule inj_onI) (simp add: sample_document_def)
  with assms(1) have "distinct (map sample_document ids)"
    by (simp add: distinct_map)
  then have "distinct (take (nat lim) (map sample_document ids))"
    by (rule distinct_take)
  with assms(2) show ?thesis by (auto simp add: sample_env_fields)
qed

lemma sample_extracted_none:
  "extractDocumentIdFromUrl sample_env
     (att_url (sample_attachment ''a6'' ''https://github.com/acme/repo/pull/7'')) = None"
  by code_simp

theorem issue_documents_deduplicated_witness:
  "documents_list sample_env
     \<lparr>dlo_project = None, dlo_issue = Some ''ENG-1'', dlo_limit = Some ''50''\<rparr>
   = ([ResolveIssueId ''ENG-1'', ListAttachments ''issue-ENG-1'',
       ListDocumentsBySlugIds [''abc123'', ''def456''] 50],
      Inr [sample_document ''abc123'', sample_document ''def456''])
   \<and> map (\<lambda>att. extractDocumentIdFromUrl sample_env (att_url att)) sample_attachments
       = [Some ''abc123'', None, None, Some ''def456'', Some ''abc123'']
   \<and> distinct [sample_document ''abc123'', sample_document ''def456'']
   \<and> documents_list sample_env
        \<lparr>dlo_project = None, dlo_issue = Some ''ENG-2'', dlo_limit = Some ''50''\<rparr>
       = ([ResolveIssueId ''ENG-2'', ListAttachments ''issue-ENG-2''], Inr [])"
proof -
  define options where
    "options = \<lparr>dlo_project = None, dlo_issue = Some ''ENG-1'', dlo_limit = Some ''50''\<rparr>"
  have h1: "\<not> truthy_str (dlo_project options)"
    by (simp add: options_def truthy_str_def)
  have h2: "dlo_issue options = Some ''ENG-1''" by (simp add: options_def)
  have h3: "''ENG-1'' \<noteq> []" by simp
  have h4: "auth sample_env = None" by (simp add: sample_env_fields)
  have h5: "parseInt (if truthy_str (dlo_limit options) then the (dlo_limit options) else ''50'')
              (Some 10) = Some 50"
    by (simp add: options_def truthy_str_def parseInt_50)
  have h6: "(1::int) \<le> 50" by simp
  have h7: "resolveIssueId sample_env ''ENG-1'' = Inr ''issue-ENG-1''"
    by (simp add: sample_env_fields)
  have h8: "rawListAttachments sample_env ''issue-ENG-1'' = Inr (Some sample_attachments)"
    by (simp add: sample_env_fields)
  have ids: "new_Set (map the (filter (\<lambda>ident. ident \<noteq> None)
               (map (\<lambda>att. extractDocumentIdFromUrl sample_env (att_url att))
                  sample_attachments)))
             = [''abc123'', ''def456'']"
    by (simp add: sample_extracted new_Set_def)
  have k: "\<forall>ids docs. distinct ids \<and> listDocumentsBySlugIds sample_env ids 50 = Inr docs
             \<longrightarrow> distinct docs"
    using sample_lookup_distinct by blast
  note inst = issue_documents_deduplicated [OF h1 h2 h3 h4 h5 h6 h7 h8, unfolded Let_def ids]
  have run: "documents_list sample_env options
     = ([ResolveIssueId ''ENG-1'', ListAttachments ''issue-ENG-1'',
         ListDocumentsBySlugIds [''abc123'', ''def456''] 50],
        Inr [sample_document ''abc123'', sample_document ''def456''])"
    using inst [THEN conjunct1] by (simp add: sample_env_fields)
  have dist: "distinct [sample_document ''abc123'', sample_document ''def456'']"
    using inst [THEN conjunct2] k run by simp
  define options2 where
    "options2 = \<lparr>dlo_project = None, dlo_issue = Some ''ENG-2'', dlo_limit = Some ''50''\<rparr>"
  have g1: "\<not> truthy_str (dlo_project options2)"
    by (simp add: options2_def truthy_str_def)
  have g2: "dlo_issue options2 = Some ''ENG-2''" by (simp add: options2_def)
  have g3: "''ENG-2'' \<noteq> []" by simp
  have g5: "parseInt (if truthy_str (dlo_limit options2) then the (dlo_limit options2) else ''50'')
              (Some 10) = Some 50"
    by (simp add: options2_def truthy_str_def parseInt_50)
  have g7: "resolveIssueId sample_env ''ENG-2'' = Inr ''issue-ENG-2''"
    by (simp add: sample_env_fields)
  have g8: "rawListAttachments sample_env ''issue-ENG-2''
              = Inr (Some [sample_attachment ''a6'' ''https://github.com/acme/repo/pull/7''])"
    by (simp add: sample_env_fields)
  have ids2: "new_Set (map the (filter (\<lambda>ident. ident \<noteq> None)
               (map (\<lambda>att. extractDocumentIdFromUrl sample_env (att_url att))
                  [sample_attachment ''a6'' ''https://github.com/acme/repo/pull/7''])))
             = []"
    by (simp add: sample_extracted_none new_Set_def)
  have run2: "documents_list sample_env options2
     = ([ResolveIssueId ''ENG-2'', ListAttachments ''issue-ENG-2''], Inr [])"
    using issue_documents_deduplicated [OF g1 g2 g3 h4 g5 h6 g7 g8, unfolded Let_def ids2,
        THEN conjunct1]
    by simp
  from run dist run2 show ?thesis
    unfolding options_def options2_def by (simp add: sample_extracted)
qed

section \<open>Attachment URLs that are no Linear documents\<close>

lemma extract_malformed:
  "parseURL E url = None \<Longrightarrow> extractDocumentIdFromUrl E url = None"
  by (simp add: extractDocumentIdFromUrl_def)

lemma extract_other_host:
  assumes "parseURL E url = Some parsed" and "\<not> sublist ''linear.app'' (hostname parsed)"
  shows "extractDocumentIdFromUrl E url = None"
  using assms by (simp add: extractDocumentIdFromUrl_def)

lemma indexOf_absent: "x \<notin> set xs \<Longrightarrow> indexOf xs x = -1"
  by (induction xs) (auto simp add: Let_def)

lemma extract_no_document_segment:
  assumes "parseURL E url = Some parsed"
    and "''document'' \<notin> set (split_on CHR ''/'' (pathname parsed))"
  shows "extractDocumentIdFromUrl E url = None"
  using assms by (simp add: extractDocumentIdFromUrl_def Let_def indexOf_absent)

text \<open>
  Claim C6. The claim holds for a URL that the parser rejects
  (\<open>extract_malformed\<close>), for a host name that does not contain \<^verbatim>\<open>linear.app\<close>
  (\<open>extract_other_host\<close>) and for a path without a \<^verbatim>\<open>document\<close> segment
  (\<open>extract_no_document_segment\<close>); the extraction is a total function, so no URL
  makes the listing fail. The claim fails for a host that merely contains
  \<^verbatim>\<open>linear.app\<close>: the attachment \<^verbatim>\<open>https://notlinear.app/acme/document/design-notes-abc123\<close>
  is not a Linear document URL, yet it is not skipped; its last path segment yields the
  slug id \<^verbatim>\<open>abc123\<close>, and the listing of the issue asks for that document.
\<close>

theorem lookalike_host_not_skipped:
  "map_option hostname
     (parseURL sample_env ''https://notlinear.app/acme/document/design-notes-abc123'')
     = Some ''notlinear.app''
   \<and> extractDocumentIdFromUrl sample_env
         ''https://notlinear.app/acme/document/design-notes-abc123''
       = Some ''abc123''
   \<and> documents_list sample_env
         \<lparr>dlo_project = None, dlo_issue = Some ''ENG-3'', dlo_limit = Some ''50''\<rparr>
       = ([ResolveIssueId ''ENG-3'', ListAttachments ''issue-ENG-3'',
           ListDocumentsBySlugIds [''abc123''] 50],
          Inr [sample_document ''abc123''])"
  by code_simp

section \<open>Validation of \<^verbatim>\<open>--limit\<close>\<close>

lemma documents_list_invalid_limit:
  assumes "\<not> (truthy_str (dlo_project options) \<and> truthy_str (dlo_issue options))"
    and "auth E = None"
    and "dlo_limit options = Some l" and "l \<noteq> []"
    and "parseInt l (Some 10) = None \<or> the (parseInt l (Some 10)) < 1"
  shows \<open>documents_list E options
           = ([], Inl (Error (''Invalid limit "'' @ l @ ''": must be a positive number'')))\<close>
  using assms
  by (auto simp add: documents_list_def truthy_str_def tmpl_opt_def io_throw_def Let_def)

text \<open>
  Claim C8. \<^verbatim>\<open>documents list\<close> rejects a limit that does not parse to an integer of at
  least 1 before any query (\<open>documents_list_invalid_limit\<close>). \<^verbatim>\<open>projects list\<close> does
  not: with \<^verbatim>\<open>--limit abc\<close> it sends the list query with \<^verbatim>\<open>first\<close> set to NaN, with
  \<^verbatim>\<open>--limit -5\<close> it sends \<^verbatim>\<open>first: -5\<close>, and in both cases it prints what the remote
  answers instead of failing with a validation error.
\<close>

theorem projects_list_limit_not_validated:
  \<open>parseInt ''abc'' None = None
   \<and> projects_list sample_env \<lparr>pl_limit = Some ''abc'', pl_includeArchived = False\<rparr>
       = ([ListProjects None False], Inr (JArr [transformProject sample_project]))
   \<and> projects_list sample_env \<lparr>pl_limit = Some ''-5'', pl_includeArchived = False\<rparr>
       = ([ListProjects (Some (- 5)) False], Inr (JArr [transformProject sample_project]))
   \<and> documents_list sample_env
         \<lparr>dlo_project = None, dlo_issue = None, dlo_limit = Some ''abc''\<rparr>
       = ([], Inl (Error ''Invalid limit "abc": must be a positive number''))\<close>
  by code_simp

section \<open>Mutations that the remote refuses\<close>

text \<open>
  The document and attachment services name what the user asked for when a mutation
  comes back without success.
\<close>

lemma createDocument_refused:
  assumes "rawDocumentCreate E input = Inr p" and "\<not> dp_success p"
  shows "\<exists>m. createDocument E input = ([DocumentCreate input], Inl (Error m))
           \<and> sublist ''create document'' m \<and> sublist (dci_title input) m"
proof -
  define rest where
    "rest = (if truthy_str (dci_projectId input)
             then '' in project '' @ the (dci_projectId input) else [])
          @ (if truthy_str (dci_teamId input)
             then '' for team '' @ the (dci_teamId input) else [])"
  have "createDocument E input
          = ([DocumentCreate input],
             Inl (Error (''Failed to '' @ ''create document'' @ '' '' @ [CHR 0x22]
                         @ dci_title input @ [CHR 0x22] @ rest)))"
    using assms by (simp add: createDocument_def io_throw_def rest_def)
  moreover have "sublist ''create document''
      (''Failed to '' @ ''create document'' @ '' '' @ [CHR 0x22] @ dci_title input @ [CHR 0x22] @ rest)"
    by (rule sublist_appendI)
  moreover have "sublist (dci_title input)
      (''Failed to '' @ ''create document'' @ '' '' @ [CHR 0x22] @ dci_title input @ [CHR 0x22] @ rest)"
    by (rule sublist_skip_left, rule sublist_skip_left, rule sublist_skip_left,
        rule sublist_appendI)
  ultimately show ?thesis by blast
qed

lemma updateDocument_refused:
  assumes "rawDocumentUpdate E ident input = Inr p" and "\<not> dp_success p"
  shows "updateDocument E ident input
           = ([DocumentUpdate ident input], Inl (Error (''Failed to update document: '' @ ident)))"
  using assms by (simp add: updateDocument_def io_throw_def)

lemma deleteDocument_refused:
  assumes "rawDocumentDelete E ident = Inr False"
  shows "deleteDocument E ident
           = ([DocumentDelete ident], Inl (Error (''Failed to delete document: '' @ ident)))"
  using assms by (simp add: deleteDocument_def io_throw_def)

lemma createAttachment_refused:
  assumes "rawAttachmentCreate E input = Inr p" and "\<not> ap_success p"
  shows \<open>createAttachment E input
           = ([AttachmentCreate input],
              Inl (Error (''Failed to create attachment on issue '' @ aci_issueId input
                          @ '' for URL "'' @ aci_url input @ ''"'')))\<close>
  using assms by (simp add: createAttachment_def io_throw_def)

lemma deleteAttachment_refused:
  assumes "rawAttachmentDelete E ident = Inr False"
  shows "deleteAttachment E ident
           = ([AttachmentDelete ident], Inl (Error (''Failed to delete attachment: '' @ ident)))"
  using assms by (simp add: deleteAttachment_def io_throw_def)

text \<open>
  The project commands answer a refused mutation with a fixed message, whatever the
  user supplied.
\<close>

lemma projects_create_refused:
  assumes "snd (projects_create E name options) = Inl e"
    and "\<exists>vars. CreateProject vars \<in> set (fst (projects_create E name options))"
    and "\<forall>vars x. rawCreateProject E vars \<noteq> Inl x"
  shows "e = Error ''Failed to create project''"
  using assms
  by (auto simp add: projects_create_def createService_def fst_io_bind snd_io_bind Let_def
        split: option.splits sum.splits if_splits)

text \<open>
  Claim C2. A refused document or attachment mutation fails with an error that names
  the operation and what the user supplied (the lemmas above). The project commands do
  not: \<^verbatim>\<open>projects create "Roadmap" --team ENG\<close>, refused by the remote, fails with
  \<^verbatim>\<open>Failed to create project\<close>, which holds neither the name nor the team; a refused
  \<^verbatim>\<open>projects update "Website" --name New\<close> and a refused \<^verbatim>\<open>projects archive "Website"\<close> fail
  with \<^verbatim>\<open>Failed to update project\<close> and \<^verbatim>\<open>Failed to archive project\<close>, which do not hold
  the project.
\<close>

theorem project_mutation_errors_lack_identifiers:
  \<open>snd (projects_create sample_env ''Roadmap''
          \<lparr>pc_team = ''ENG'', pc_description = None, pc_icon = None, pc_color = None,
           pc_lead = None, pc_priority = None, pc_startDate = None, pc_targetDate = None\<rparr>)
     = Inl (Error ''Failed to create project'')
   \<and> \<not> sublist ''Roadmap'' ''Failed to create project''
   \<and> \<not> sublist ''ENG'' ''Failed to create project''
   \<and> snd (projects_update
            (sample_env\<lparr>rawUpdateProject :=
               (\<lambda>vars. Inr (Some \<lparr>pp_success = False, pp_project = JNull\<rparr>))\<rparr>)
            ''Website'' (no_update_options\<lparr>pu_name := Some ''New''\<rparr>))
     = Inl (Error ''Failed to update project'')
   \<and> \<not> sublist ''Website'' ''Failed to update project''
   \<and> snd (projects_archive
            (sample_env\<lparr>rawArchiveProject := (\<lambda>ident. Inr (Some False))\<rparr>) ''Website'')
     = Inl (Error ''Failed to archive project'')
   \<and> \<not> sublist ''Website'' ''Failed to archive project''\<close>
  by code_simp

end
